theory Spec2Isabelle
  imports Complex_Main
begin

section \<open>The Hunter.io client (\<^verbatim>\<open>HunterAPIClient\<close>, server.py lines 99-173)\<close>

subsection \<open>Rate limiting: \<^verbatim>\<open>_enforce_rate_limit\<close>\<close>

text \<open>
  The client keeps \<^verbatim>\<open>self.request_timestamps\<close>, a list of POSIX timestamps in seconds
  (Python floats read from \<^verbatim>\<open>datetime.now().timestamp()\<close>). They are modelled as
  reals: the comparisons and the two subtractions of the source are exact here, rounding
  of floats is not modelled. The clock reading \<open>current_time\<close> is an input.

  What the coroutine does besides updating the list is recorded as a trace of events in
  program order: each \<^verbatim>\<open>await asyncio.sleep(d)\<close> is \<open>Sleep d\<close>, and the final
  \<^verbatim>\<open>self.request_timestamps.append(current_time)\<close> is \<open>Append_timestamp\<close>.
\<close>

datatype event = Sleep real | Append_timestamp real

definition enforce_rate_limit :: "real \<Rightarrow> real list \<Rightarrow> event list \<times> real list" where
  "enforce_rate_limit current_time request_timestamps =
    (let cutoff_time = current_time - 60;
         kept = filter (\<lambda>ts. ts > cutoff_time) request_timestamps;
         minute_events =
           (if length kept \<ge> 500 then
              (let sleep_time = 60 - (current_time - hd kept)
               in if sleep_time > 0 then [Sleep sleep_time] else [])
            else []);
         recent_requests = filter (\<lambda>ts. ts > current_time - 1) kept;
         second_events = (if length recent_requests \<ge> 15 then [Sleep 1] else [])
     in (minute_events @ second_events @ [Append_timestamp current_time],
         kept @ [current_time]))"

text \<open>
  \<open>enforce_rate_limit\<close> is one call that runs from its first statement to its last with
  no other call of the client in between. The client is one object shared by every task
  of the process (\<^verbatim>\<open>hunter_client\<close>, line 341), and the coroutine gives up control at
  each \<^verbatim>\<open>await asyncio.sleep\<close> (lines 118 and 123), before it appends its timestamp (line
  125). So calls overlap: while one sleeps, others enter, read and write the list.

  The state of the limiter is the list \<open>recorded\<close> (\<^verbatim>\<open>self.request_timestamps\<close>) and the
  calls \<open>in_flight\<close>: each is suspended in the per-minute sleep or in the per-second sleep
  and remembers its local \<^verbatim>\<open>current_time\<close>. Between two suspensions a coroutine runs without
  interruption: \<open>call\<close> is a call from its entry (line 107) to its first suspension or its
  end, \<open>second_check\<close> is the code from line 121 on, and \<open>wake\<close> resumes the \<open>i\<close>-th
  suspended call. Each returns the events of that stretch. A schedule is a list of
  actions; when a suspended call is resumed is left to the schedule.
\<close>

datatype limiter_call = Sleeping_minute real | Sleeping_second real

record limiter =
  recorded :: "real list"
  in_flight :: "limiter_call list"

definition second_check :: "real \<Rightarrow> limiter \<Rightarrow> event list \<times> limiter" where
  "second_check current_time l =
     (let recent_requests = filter (\<lambda>ts. ts > current_time - 1) (recorded l)
      in if length recent_requests \<ge> 15
         then ([Sleep 1], l\<lparr>in_flight := in_flight l @ [Sleeping_second current_time]\<rparr>)
         else ([Append_timestamp current_time], l\<lparr>recorded := recorded l @ [current_time]\<rparr>))"

definition call :: "real \<Rightarrow> limiter \<Rightarrow> event list \<times> limiter" where
  "call current_time l =
     (let cutoff_time = current_time - 60;
          kept = filter (\<lambda>ts. ts > cutoff_time) (recorded l);
          l1 = l\<lparr>recorded := kept\<rparr>
      in if length kept \<ge> 500 then
           (let sleep_time = 60 - (current_time - hd kept)
            in if sleep_time > 0
               then ([Sleep sleep_time],
                     l1\<lparr>in_flight := in_flight l1 @ [Sleeping_minute current_time]\<rparr>)
               else second_check current_time l1)
         else second_check current_time l1)"

definition wake :: "nat \<Rightarrow> limiter \<Rightarrow> event list \<times> limiter" where
  "wake i l =
     (if i < length (in_flight l) then
        (let l1 = l\<lparr>in_flight := take i (in_flight l) @ drop (Suc i) (in_flight l)\<rparr>
         in case in_flight l ! i of
              Sleeping_minute current_time \<Rightarrow> second_check current_time l1
            | Sleeping_second current_time \<Rightarrow>
                ([Append_timestamp current_time],
                 l1\<lparr>recorded := recorded l1 @ [current_time]\<rparr>))
      else ([], l))"

datatype limiter_action = Call real | Wake nat

fun limiter_step :: "limiter_action \<Rightarrow> limiter \<Rightarrow> event list \<times> limiter" where
  "limiter_step (Call current_time) l = call current_time l"
| "limiter_step (Wake i) l = wake i l"

fun run_limiter :: "limiter_action list \<Rightarrow> limiter \<Rightarrow> event list list \<times> limiter" where
  "run_limiter [] l = ([], l)"
| "run_limiter (a # acts) l =
     (let (evs, l1) = limiter_step a l;
          (rest, l2) = run_limiter acts l1
      in (evs # rest, l2))"


subsection \<open>Requests: \<^verbatim>\<open>_make_request\<close>\<close>

text \<open>
  What \<^verbatim>\<open>http_client.get\<close> does is the environment's choice: it returns a response
  (status code and body text), or raises \<^verbatim>\<open>httpx.TimeoutException\<close>, or raises another
  \<^verbatim>\<open>httpx.RequestError\<close> (with its message). The environment is \<open>network\<close>, giving the
  outcome of the \<open>n\<close>-th GET that is sent; the client state carries \<open>requests_sent\<close>, the
  number of GETs sent so far, next to the timestamps, so the number of GETs one call
  sends is visible in the result.

  \<^verbatim>\<open>response.json()\<close> is the parameter \<open>parse_json\<close>: \<open>None\<close> when the body does not
  decode (the source lets that exception through). The exceptions of the program are the
  values of \<open>exception\<close>: FastAPI's \<^verbatim>\<open>HTTPException\<close> with its status code and detail, the
  JSON decoding error, the 422 rejection FastAPI raises when a request does not validate
  against the declared parameter types, and a database driver error.
\<close>

datatype http_outcome =
    Response int string
  | TimeoutException
  | RequestError string

datatype exception =
    HTTPException int string
  | JSONDecodeError
  | RequestValidationError string
  | PyMongoError string

record HunterAPIClient =
  request_timestamps :: "real list"
  requests_sent :: nat

definition make_request ::
  "(string \<Rightarrow> 'j option) \<Rightarrow> (nat \<Rightarrow> http_outcome) \<Rightarrow> real \<Rightarrow> HunterAPIClient
     \<Rightarrow> (exception + 'j) \<times> event list \<times> HunterAPIClient" where
  "make_request parse_json network current_time self =
    (let (events, timestamps) = enforce_rate_limit current_time (request_timestamps self);
         outcome = network (requests_sent self);
         self' = \<lparr>request_timestamps = timestamps, requests_sent = requests_sent self + 1\<rparr>;
         result =
           (case outcome of
              Response status_code body \<Rightarrow>
                if status_code = 403 then
                  Inl (HTTPException 429 ''Rate limit exceeded or insufficient credits'')
                else if status_code = 401 then
                  Inl (HTTPException 401 ''Invalid API key'')
                else if status_code \<noteq> 200 then
                  Inl (HTTPException status_code (''API request failed: '' @ body))
                else (case parse_json body of
                        None \<Rightarrow> Inl JSONDecodeError
                      | Some j \<Rightarrow> Inr j)
            | TimeoutException \<Rightarrow> Inl (HTTPException 408 ''Request timeout'')
            | RequestError msg \<Rightarrow> Inl (HTTPException 503 (''Network error: '' @ msg)))
     in (result, events, self'))"

section \<open>Data model (server.py lines 51-96)\<close>

text \<open>
  \<^verbatim>\<open>datetime\<close> values are clock readings, modelled as integers (a count of clock ticks);
  only their order matters. Identifiers (\<^verbatim>\<open>str(uuid.uuid4())\<close>) are strings supplied by the
  environment. The field \<^verbatim>\<open>id\<close> of the source is \<open>store_id\<close> of a store and \<open>job_id\<close> of a
  job, since \<open>id\<close> is the identity function of HOL; \<^verbatim>\<open>notes\<close> is \<open>store_notes\<close>, and a job's
  \<^verbatim>\<open>created_at\<close> is \<open>job_created_at\<close>.
\<close>

type_synonym datetime = int

record DVDStore =
  store_id :: string
  name :: string
  address :: "string option"
  city :: "string option"
  state :: "string option"
  phone :: "string option"
  website :: "string option"
  email :: "string option"
  email_confidence :: "real option"
  source :: string
  source_url :: "string option"
  store_notes :: "string option"
  verified :: bool
  created_at :: datetime
  updated_at :: datetime

text \<open>
  A \<^verbatim>\<open>DVDStoreCreate\<close> object remembers which of its fields the request supplied
  (pydantic's fields-set, read by \<^verbatim>\<open>dict(exclude_unset=True)\<close>): a field is \<open>Unset\<close> or
  \<open>Given v\<close>. \<^verbatim>\<open>name\<close> is required, so it is always given. An \<^verbatim>\<open>Optional[str]\<close> field can be
  given as \<^verbatim>\<open>null\<close>, which is \<open>Given None\<close>.
\<close>

datatype 'a field = Unset | Given 'a

record DVDStoreCreate =
  name_in :: string
  address_in :: "string option field"
  city_in :: "string option field"
  state_in :: "string option field"
  phone_in :: "string option field"
  website_in :: "string option field"
  email_in :: "string option field"
  source_in :: "string field"
  source_url_in :: "string option field"
  notes_in :: "string option field"

text \<open>
  The dictionaries the scrapers build (\<^verbatim>\<open>store_data\<close>): a key a scraper does not write is
  \<open>None\<close>, which is the default \<^verbatim>\<open>DVDStore(**store_data)\<close> gives the field.
\<close>

record store_data =
  found_name :: string
  found_address :: "string option"
  found_city :: "string option"
  found_phone :: "string option"
  found_website :: "string option"
  found_source :: string
  found_source_url :: "string option"
  found_notes :: "string option"

datatype job_type = directory_search | reddit_search | email_discovery

datatype job_status = pending | running | completed | failed

text \<open>
  \<^verbatim>\<open>parameters\<close> is a dictionary read with \<^verbatim>\<open>.get(key, default)\<close>: an absent key is \<open>None\<close>.
  \<^verbatim>\<open>results\<close> is the dictionary \<^verbatim>\<open>{"stores", "total_found", "credits_used"}\<close>.
\<close>

record job_parameters =
  query :: "string option"
  location :: "string option"
  max_results :: "int option"
  max_posts :: "int option"
  store_ids :: "string list option"

record job_results =
  stores :: "store_data list"
  total_found :: nat
  results_credits_used :: nat

record SearchJob =
  job_id :: string
  job_type :: job_type
  status :: job_status
  parameters :: job_parameters
  results :: "job_results option"
  error_message :: "string option"
  job_created_at :: datetime
  completed_at :: "datetime option"
  stores_found :: nat
  credits_used :: nat

section \<open>The repository (the two MongoDB collections)\<close>

text \<open>
  A collection is the list of its documents in storage order. The operations are the ones
  the source calls on \<^verbatim>\<open>db.dvd_stores\<close> and \<^verbatim>\<open>db.search_jobs\<close>: a query is a predicate on
  documents, \<^verbatim>\<open>$set\<close> is a function on documents, and the single-document operations act
  on the first document that matches.
\<close>

record database =
  dvd_stores :: "DVDStore list"
  search_jobs :: "SearchJob list"

definition find_one :: "('d \<Rightarrow> bool) \<Rightarrow> 'd list \<Rightarrow> 'd option" where
  "find_one matches docs = List.find matches docs"

fun update_one :: "('d \<Rightarrow> bool) \<Rightarrow> ('d \<Rightarrow> 'd) \<Rightarrow> 'd list \<Rightarrow> 'd list" where
  "update_one matches set_fields [] = []"
| "update_one matches set_fields (d # docs) =
     (if matches d then set_fields d # docs else d # update_one matches set_fields docs)"

definition find_one_and_update ::
  "('d \<Rightarrow> bool) \<Rightarrow> ('d \<Rightarrow> 'd) \<Rightarrow> 'd list \<Rightarrow> 'd option \<times> 'd list" where
  "find_one_and_update matches set_fields docs =
     (map_option set_fields (find_one matches docs), update_one matches set_fields docs)"

definition insert_one :: "'d \<Rightarrow> 'd list \<Rightarrow> 'd list" where
  "insert_one d docs = docs @ [d]"

fun delete_one :: "('d \<Rightarrow> bool) \<Rightarrow> 'd list \<Rightarrow> nat \<times> 'd list" where
  "delete_one matches [] = (0, [])"
| "delete_one matches (d # docs) =
     (if matches d then (1, docs)
      else (let (deleted_count, docs') = delete_one matches docs in (deleted_count, d # docs')))"

text \<open>
  The \<^verbatim>\<open>$set\<close> documents the program sends to \<^verbatim>\<open>db.dvd_stores\<close> name fields of a store; a
  field that is not named keeps its value.
\<close>

record store_set =
  set_name :: "string field"
  set_address :: "string option field"
  set_city :: "string option field"
  set_state :: "string option field"
  set_phone :: "string option field"
  set_website :: "string option field"
  set_email :: "string option field"
  set_email_confidence :: "real option field"
  set_source :: "string field"
  set_source_url :: "string option field"
  set_notes :: "string option field"
  set_verified :: "bool field"
  set_updated_at :: "datetime field"

definition set_nothing :: store_set where
  "set_nothing =
     \<lparr>set_name = Unset, set_address = Unset, set_city = Unset, set_state = Unset,
      set_phone = Unset, set_website = Unset, set_email = Unset,
      set_email_confidence = Unset, set_source = Unset, set_source_url = Unset,
      set_notes = Unset, set_verified = Unset, set_updated_at = Unset\<rparr>"

fun or_keep :: "'a field \<Rightarrow> 'a \<Rightarrow> 'a" where
  "or_keep Unset old = old"
| "or_keep (Given v) old = v"

definition apply_set :: "store_set \<Rightarrow> DVDStore \<Rightarrow> DVDStore" where
  "apply_set u d =
     \<lparr>store_id = store_id d,
      name = or_keep (set_name u) (name d),
      address = or_keep (set_address u) (address d),
      city = or_keep (set_city u) (city d),
      state = or_keep (set_state u) (state d),
      phone = or_keep (set_phone u) (phone d),
      website = or_keep (set_website u) (website d),
      email = or_keep (set_email u) (email d),
      email_confidence = or_keep (set_email_confidence u) (email_confidence d),
      source = or_keep (set_source u) (source d),
      source_url = or_keep (set_source_url u) (source_url d),
      store_notes = or_keep (set_notes u) (store_notes d),
      verified = or_keep (set_verified u) (verified d),
      created_at = created_at d,
      updated_at = or_keep (set_updated_at u) (updated_at d)\<rparr>"

section \<open>Store routes (server.py lines 486-558)\<close>

subsection \<open>Request validation\<close>

text \<open>
  FastAPI validates a request against the declared parameter types before it calls the
  route function, and answers 422 without calling it when validation fails. For a body of
  type \<^verbatim>\<open>DVDStoreCreate\<close> that is pydantic's validation of the class at lines 68-78:
  \<^verbatim>\<open>name: str\<close> has no default, so it is required and cannot be null;
  \<^verbatim>\<open>source: str = "manual"\<close> may be left out and cannot be null; the other fields are
  \<^verbatim>\<open>Optional[str] = None\<close>. A JSON body is a finite map from keys to values; the values
  modelled are \<^verbatim>\<open>null\<close> and strings (how pydantic treats a number or a list given for a
  string field depends on its version and is left out). Keys that are not fields of the
  class are ignored.
\<close>

datatype json_value = JNull | JString string

type_synonym json_object = "string \<Rightarrow> json_value option"

fun optional_str :: "json_value option \<Rightarrow> string option field" where
  "optional_str None = Unset"
| "optional_str (Some JNull) = Given None"
| "optional_str (Some (JString s)) = Given (Some s)"

definition validate_DVDStoreCreate :: "json_object \<Rightarrow> exception + DVDStoreCreate" where
  "validate_DVDStoreCreate body =
     (case body ''name'' of
        None \<Rightarrow> Inl (RequestValidationError ''name: field required'')
      | Some JNull \<Rightarrow> Inl (RequestValidationError ''name: none is not an allowed value'')
      | Some (JString n) \<Rightarrow>
          (case body ''source'' of
             Some JNull \<Rightarrow>
               Inl (RequestValidationError ''source: none is not an allowed value'')
           | Some (JString src) \<Rightarrow>
               Inr \<lparr>name_in = n,
                    address_in = optional_str (body ''address''),
                    city_in = optional_str (body ''city''),
                    state_in = optional_str (body ''state''),
                    phone_in = optional_str (body ''phone''),
                    website_in = optional_str (body ''website''),
                    email_in = optional_str (body ''email''),
                    source_in = Given src,
                    source_url_in = optional_str (body ''source_url''),
                    notes_in = optional_str (body ''notes'')\<rparr>
           | None \<Rightarrow>
               Inr \<lparr>name_in = n,
                    address_in = optional_str (body ''address''),
                    city_in = optional_str (body ''city''),
                    state_in = optional_str (body ''state''),
                    phone_in = optional_str (body ''phone''),
                    website_in = optional_str (body ''website''),
                    email_in = optional_str (body ''email''),
                    source_in = Unset,
                    source_url_in = optional_str (body ''source_url''),
                    notes_in = optional_str (body ''notes'')\<rparr>))"

subsection \<open>\<^verbatim>\<open>create_store\<close>\<close>

text \<open>
  \<^verbatim>\<open>DVDStore(**store.dict())\<close>: every field of the request with its default where it was
  not given, a fresh id and two clock readings (the two \<^verbatim>\<open>default_factory\<close> calls).
\<close>

definition create_store ::
  "string \<Rightarrow> datetime \<Rightarrow> datetime \<Rightarrow> DVDStoreCreate \<Rightarrow> database \<Rightarrow> DVDStore \<times> database" where
  "create_store uuid4 utcnow1 utcnow2 store db =
     (let store_obj =
            \<lparr>store_id = uuid4,
             name = name_in store,
             address = or_keep (address_in store) None,
             city = or_keep (city_in store) None,
             state = or_keep (state_in store) None,
             phone = or_keep (phone_in store) None,
             website = or_keep (website_in store) None,
             email = or_keep (email_in store) None,
             email_confidence = None,
             source = or_keep (source_in store) ''manual'',
             source_url = or_keep (source_url_in store) None,
             store_notes = or_keep (notes_in store) None,
             verified = False,
             created_at = utcnow1,
             updated_at = utcnow2\<rparr>
      in (store_obj, db\<lparr>dvd_stores := insert_one store_obj (dvd_stores db)\<rparr>))"

subsection \<open>\<^verbatim>\<open>update_store\<close>\<close>

text \<open>\<^verbatim>\<open>store_update.dict(exclude_unset=True)\<close>: the fields the request supplied.\<close>

definition dict_exclude_unset :: "DVDStoreCreate \<Rightarrow> store_set" where
  "dict_exclude_unset store_update =
     \<lparr>set_name = Given (name_in store_update),
      set_address = address_in store_update,
      set_city = city_in store_update,
      set_state = state_in store_update,
      set_phone = phone_in store_update,
      set_website = website_in store_update,
      set_email = email_in store_update,
      set_email_confidence = Unset,
      set_source = source_in store_update,
      set_source_url = source_url_in store_update,
      set_notes = notes_in store_update,
      set_verified = Unset,
      set_updated_at = Unset\<rparr>"

definition update_store ::
  "datetime \<Rightarrow> string \<Rightarrow> DVDStoreCreate \<Rightarrow> database \<Rightarrow> (exception + DVDStore) \<times> database" where
  "update_store utcnow sid store_update db =
     (let update_dict = (dict_exclude_unset store_update)\<lparr>set_updated_at := Given utcnow\<rparr>;
          (result, docs) =
             find_one_and_update (\<lambda>d. store_id d = sid) (apply_set update_dict) (dvd_stores db)
      in case result of
           None \<Rightarrow> (Inl (HTTPException 404 ''Store not found''), db\<lparr>dvd_stores := docs\<rparr>)
         | Some d \<Rightarrow> (Inr d, db\<lparr>dvd_stores := docs\<rparr>))"

text \<open>
  The route \<^verbatim>\<open>PUT /stores/{store_id}\<close> as a client reaches it: validation of the body, then
  the route function.
\<close>

definition put_store ::
  "datetime \<Rightarrow> string \<Rightarrow> json_object \<Rightarrow> database \<Rightarrow> (exception + DVDStore) \<times> database" where
  "put_store utcnow sid body db =
     (case validate_DVDStoreCreate body of
        Inl rejected \<Rightarrow> (Inl rejected, db)
      | Inr store_update \<Rightarrow> update_store utcnow sid store_update db)"

subsection \<open>\<^verbatim>\<open>delete_store\<close> and \<^verbatim>\<open>verify_store\<close>\<close>

definition delete_store :: "string \<Rightarrow> database \<Rightarrow> (exception + string) \<times> database" where
  "delete_store sid db =
     (let (deleted_count, docs) = delete_one (\<lambda>d. store_id d = sid) (dvd_stores db)
      in if deleted_count = 0 then (Inl (HTTPException 404 ''Store not found''), db)
         else (Inr ''Store deleted successfully'', db\<lparr>dvd_stores := docs\<rparr>))"

definition verify_store ::
  "datetime \<Rightarrow> string \<Rightarrow> database \<Rightarrow> (exception + DVDStore) \<times> database" where
  "verify_store utcnow sid db =
     (let (result, docs) =
             find_one_and_update (\<lambda>d. store_id d = sid)
               (apply_set (set_nothing\<lparr>set_verified := Given True, set_updated_at := Given utcnow\<rparr>))
               (dvd_stores db)
      in case result of
           None \<Rightarrow> (Inl (HTTPException 404 ''Store not found''), db\<lparr>dvd_stores := docs\<rparr>)
         | Some d \<Rightarrow> (Inr d, db\<lparr>dvd_stores := docs\<rparr>))"

subsection \<open>\<^verbatim>\<open>get_stores\<close>\<close>

text \<open>
  The search term is sent to the database as \<^verbatim>\<open>{"$regex": search, "$options": "i"}\<close>: it is
  a regular expression, matched anywhere in the field, ignoring case. The database's
  regular expressions are modelled on a fragment: a pattern whose characters are ordinary
  characters, each matching itself up to the case of ASCII letters, and the dot, which
  matches any character but a newline. A pattern that uses another metacharacter
  (one of \<^verbatim>\<open>\ ^ $ [ | ( ) ? * + {\<close>) is outside the model: \<open>regex_search\<close> is \<open>None\<close> for it.
\<close>

definition to_lower :: "char \<Rightarrow> char" where
  "to_lower c =
     (case map_of (zip ''ABCDEFGHIJKLMNOPQRSTUVWXYZ'' ''abcdefghijklmnopqrstuvwxyz'') c of
        None \<Rightarrow> c
      | Some l \<Rightarrow> l)"

definition is_meta :: "char \<Rightarrow> bool" where
  "is_meta c \<longleftrightarrow> c \<in> set [CHR 0x5C, CHR ''^'', CHR ''$'', CHR ''.'', CHR ''['', CHR ''|'',
                        CHR ''('', CHR '')'', CHR ''?'', CHR ''*'', CHR ''+'', CHR ''{'']"

fun match_here :: "string \<Rightarrow> string \<Rightarrow> bool" where
  "match_here [] txt = True"
| "match_here (p # ps) [] = False"
| "match_here (p # ps) (c # cs) =
     ((if p = CHR ''.'' then c \<noteq> CHR 0x0A else to_lower p = to_lower c) \<and> match_here ps cs)"

fun search_from :: "string \<Rightarrow> string \<Rightarrow> bool" where
  "search_from pat [] = match_here pat []"
| "search_from pat (c # cs) = (match_here pat (c # cs) \<or> search_from pat cs)"

definition regex_search :: "string \<Rightarrow> string \<Rightarrow> bool option" where
  "regex_search pat txt =
     (if list_all (\<lambda>p. p = CHR ''.'' \<or> \<not> is_meta p) pat then Some (search_from pat txt)
      else None)"

text \<open>A field that is null does not match any regular expression.\<close>

fun regex_field :: "string \<Rightarrow> string option \<Rightarrow> bool option" where
  "regex_field pat None = (if regex_search pat [] = None then None else Some False)"
| "regex_field pat (Some txt) = regex_search pat txt"

text \<open>
  The query \<open>filter_dict\<close> as a predicate on documents; \<open>None\<close> when the search term is
  outside the modelled fragment. \<^verbatim>\<open>if search:\<close> and \<^verbatim>\<open>if state:\<close> skip an empty string as
  they skip an absent parameter.
\<close>

definition filter_dict ::
  "string option \<Rightarrow> string option \<Rightarrow> bool option \<Rightarrow> (DVDStore \<Rightarrow> bool) option" where
  "filter_dict search state_param verified_param =
     (let state_ok = (\<lambda>d. case state_param of
                             None \<Rightarrow> True
                           | Some st \<Rightarrow> st = [] \<or> state d = Some st);
          verified_ok = (\<lambda>d. case verified_param of
                                None \<Rightarrow> True
                              | Some v \<Rightarrow> verified d = v)
      in case search of
           None \<Rightarrow> Some (\<lambda>d. state_ok d \<and> verified_ok d)
         | Some pat \<Rightarrow>
             if pat = [] then Some (\<lambda>d. state_ok d \<and> verified_ok d)
             else if regex_search pat [] = None then None
             else Some (\<lambda>d. (regex_field pat (Some (name d)) = Some True
                              \<or> regex_field pat (city d) = Some True
                              \<or> regex_field pat (address d) = Some True)
                             \<and> state_ok d \<and> verified_ok d))"

text \<open>
  The route: \<^verbatim>\<open>skip: int = Query(0, ge=0)\<close> and \<^verbatim>\<open>limit: int = Query(100, ge=1, le=500)\<close>
  are checked by FastAPI before the function runs; then
  \<^verbatim>\<open>find(filter_dict).skip(skip).limit(limit).to_list(limit)\<close>.
\<close>

definition get_stores ::
  "int \<Rightarrow> int \<Rightarrow> string option \<Rightarrow> string option \<Rightarrow> bool option \<Rightarrow> database
     \<Rightarrow> (exception + DVDStore list) option" where
  "get_stores skip limit search state_param verified_param db =
     (if skip < 0 then Some (Inl (RequestValidationError ''skip: greater than or equal to 0''))
      else if limit < 1 then
        Some (Inl (RequestValidationError ''limit: greater than or equal to 1''))
      else if limit > 500 then
        Some (Inl (RequestValidationError ''limit: less than or equal to 500''))
      else case filter_dict search state_param verified_param of
             None \<Rightarrow> None
           | Some matches \<Rightarrow>
               Some (Inr (take (nat limit)
                            (take (nat limit) (drop (nat skip) (filter matches (dvd_stores db)))))))"

section \<open>Example data\<close>

text \<open>A store as the test script creates it, and the update the test script sends.\<close>

definition example_store :: DVDStore where
  "example_store =
     \<lparr>store_id = ''s1'', name = ''Vintage Video Palace'', address = None,
      city = Some ''Los Angeles'', state = Some ''CA'', phone = None,
      website = Some ''https://www.vintagevideo.example/shop'', email = None,
      email_confidence = None, source = ''manual'', source_url = None, store_notes = None,
      verified = False, created_at = 100, updated_at = 100\<rparr>"

definition example_db :: database where
  "example_db = \<lparr>dvd_stores = [example_store], search_jobs = []\<rparr>"

definition example_update :: DVDStoreCreate where
  "example_update =
     \<lparr>name_in = ''Vintage Video Palace - Updated'', address_in = Unset, city_in = Unset,
      state_in = Unset, phone_in = Unset, website_in = Unset, email_in = Unset,
      source_in = Unset, source_url_in = Unset,
      notes_in = Given (Some ''Updated notes - now also sells Blu-rays'')\<rparr>"



section \<open>Web scrapers (\<^verbatim>\<open>WebScraper\<close>, server.py lines 176-338)\<close>

text \<open>
  A scraper sends one GET and parses the answer. What the GET and the parsing libraries do
  is the environment's choice: \<open>Http_error\<close> when \<^verbatim>\<open>session.get\<close> raises; otherwise a
  response with its status code, the result elements found in its body (\<open>None\<close> when
  reading the body raises, as \<^verbatim>\<open>response.json()\<close> does on a body that is not JSON) and its
  final URL. An element is \<open>Element\<close> with what the lookups inside it return, or \<open>Broken\<close>
  when the statements in the inner \<^verbatim>\<open>try\<close> raise on it (with the exception's text).

  A scraper returns the list \<^verbatim>\<open>stores\<close> and, next to it, what it wrote to the log. The
  courtesy \<^verbatim>\<open>time.sleep\<close> before returning has no effect on either and is left out.
\<close>

datatype 'f element = Element 'f | Broken string

datatype 'f http_result =
    Http_response int "'f element list option" string
  | Http_error string

datatype log_record = Log_warning string | Log_error string

text \<open>
  Python's \<^verbatim>\<open>xs[:n]\<close>, also for a negative \<open>n\<close>, and \<^verbatim>\<open>str.strip()\<close>. A character of the
  model is one of the code points 0 to 255; the white space \<^verbatim>\<open>str.strip()\<close> removes among
  them is the space, 0x09 to 0x0D, 0x1C to 0x1F, 0x85 and 0xA0.
\<close>

definition slice_to :: "int \<Rightarrow> 'a list \<Rightarrow> 'a list" where
  "slice_to n xs = (if 0 \<le> n then take (nat n) xs else take (length xs - nat (- n)) xs)"

definition is_space :: "char \<Rightarrow> bool" where
  "is_space c \<longleftrightarrow>
     c \<in> set [CHR '' '', CHR 0x09, CHR 0x0A, CHR 0x0B, CHR 0x0C, CHR 0x0D,
              CHR 0x1C, CHR 0x1D, CHR 0x1E, CHR 0x1F, CHR 0x85, CHR 0xA0]"

definition strip :: "string \<Rightarrow> string" where
  "strip s = rev (dropWhile is_space (rev (dropWhile is_space s)))"

subsection \<open>\<^verbatim>\<open>search_yellow_pages\<close>\<close>

text \<open>
  What \<^verbatim>\<open>result.find(...)\<close> finds in one \<^verbatim>\<open>div.result\<close>: the text of each element that is
  there, and the \<^verbatim>\<open>href\<close> of the website link.
\<close>

record yellow_pages_result =
  business_name :: "string option"
  street_address :: "string option"
  locality :: "string option"
  phones :: "string option"
  track_visit_website :: "string option"

definition yellow_pages_store :: "string \<Rightarrow> yellow_pages_result \<Rightarrow> store_data" where
  "yellow_pages_store url r =
     \<lparr>found_name = (case business_name r of None \<Rightarrow> ''Unknown'' | Some t \<Rightarrow> strip t),
      found_address = map_option strip (street_address r),
      found_city = map_option strip (locality r),
      found_phone = map_option strip (phones r),
      found_website = track_visit_website r,
      found_source = ''yellow_pages'',
      found_source_url = Some url,
      found_notes = None\<rparr>"

fun parse_yellow_pages ::
  "string \<Rightarrow> yellow_pages_result element list \<Rightarrow> store_data list \<times> log_record list" where
  "parse_yellow_pages url [] = ([], [])"
| "parse_yellow_pages url (Element r # rest) =
     (let (stores, logged) = parse_yellow_pages url rest
      in (yellow_pages_store url r # stores, logged))"
| "parse_yellow_pages url (Broken e # rest) =
     (let (stores, logged) = parse_yellow_pages url rest
      in (stores, Log_warning (''Error parsing result: '' @ e) # logged))"

definition search_yellow_pages ::
  "yellow_pages_result http_result \<Rightarrow> int \<Rightarrow> store_data list \<times> log_record list" where
  "search_yellow_pages response max_res =
     (case response of
        Http_error e \<Rightarrow> ([], [Log_error (''Error searching Yellow Pages: '' @ e)])
      | Http_response status_code body url \<Rightarrow>
          if status_code \<noteq> 200 then ([], [])
          else (case body of
                  None \<Rightarrow> ([], [Log_error ''Error searching Yellow Pages: unreadable body''])
                | Some rest \<Rightarrow> parse_yellow_pages url (slice_to max_res rest)))"

subsection \<open>\<^verbatim>\<open>search_yelp\<close>\<close>

definition yelp_store :: "string \<Rightarrow> string option \<Rightarrow> store_data" where
  "yelp_store url biz_name =
     \<lparr>found_name = (case biz_name of None \<Rightarrow> ''Unknown'' | Some t \<Rightarrow> strip t),
      found_address = None, found_city = None, found_phone = None, found_website = None,
      found_source = ''yelp'', found_source_url = Some url, found_notes = None\<rparr>"

fun parse_yelp ::
  "string \<Rightarrow> string option element list \<Rightarrow> store_data list \<times> log_record list" where
  "parse_yelp url [] = ([], [])"
| "parse_yelp url (Element r # rest) =
     (let (stores, logged) = parse_yelp url rest in (yelp_store url r # stores, logged))"
| "parse_yelp url (Broken e # rest) =
     (let (stores, logged) = parse_yelp url rest
      in (stores, Log_warning (''Error parsing Yelp result: '' @ e) # logged))"

definition search_yelp ::
  "string option http_result \<Rightarrow> int \<Rightarrow> store_data list \<times> log_record list" where
  "search_yelp response max_res =
     (case response of
        Http_error e \<Rightarrow> ([], [Log_error (''Error searching Yelp: '' @ e)])
      | Http_response status_code body url \<Rightarrow>
          if status_code \<noteq> 200 then ([], [])
          else (case body of
                  None \<Rightarrow> ([], [Log_error ''Error searching Yelp: unreadable body''])
                | Some rest \<Rightarrow> parse_yelp url (slice_to max_res rest)))"

subsection \<open>\<^verbatim>\<open>search_reddit\<close>\<close>

text \<open>
  A post that the inner \<^verbatim>\<open>try\<close> gets through carries a title, a text and a permalink
  (each \<^verbatim>\<open>''\<close> when the key is absent). \<^verbatim>\<open>re.findall(pattern, text, re.IGNORECASE)\<close> is the
  parameter \<open>findall\<close>; the two patterns are the strings of the source. Every match of
  either pattern becomes a record. In the source every statement of the inner \<^verbatim>\<open>try\<close> that
  can raise does so before the first \<^verbatim>\<open>append\<close> for the post, so a post is \<open>Broken\<close> as a
  whole.
\<close>

record reddit_post =
  title :: string
  selftext :: string
  permalink :: string

definition store_patterns :: "string list" where
  "store_patterns =
     [''([A-Z][a-z]+ (?:DVD|Video|Movies?|Records?)(?:'' @ [CHR 0x5C] @ ''s+(?:Store|Shop|Outlet))?)'',
      ''([A-Z][a-z]+'' @ [CHR 0x5C, CHR 0x27] @ ''s (?:DVD|Video|Movies?|Records?))'']"

definition reddit_store :: "reddit_post \<Rightarrow> string \<Rightarrow> store_data" where
  "reddit_store post found =
     \<lparr>found_name = strip found,
      found_address = None, found_city = None, found_phone = None, found_website = None,
      found_source = ''reddit'',
      found_source_url = Some (''https://reddit.com'' @ permalink post),
      found_notes = Some (''Found in Reddit post: '' @ take 100 (title post) @ ''...'')\<rparr>"

definition reddit_post_stores ::
  "(string \<Rightarrow> string \<Rightarrow> string list) \<Rightarrow> reddit_post \<Rightarrow> store_data list" where
  "reddit_post_stores findall post =
     concat (map (\<lambda>pattern.
                    map (reddit_store post)
                        (findall pattern (title post @ '' '' @ selftext post)))
                 store_patterns)"

fun parse_reddit ::
  "(string \<Rightarrow> string \<Rightarrow> string list) \<Rightarrow> reddit_post element list
     \<Rightarrow> store_data list \<times> log_record list" where
  "parse_reddit findall [] = ([], [])"
| "parse_reddit findall (Element post # posts) =
     (let (stores, logged) = parse_reddit findall posts
      in (reddit_post_stores findall post @ stores, logged))"
| "parse_reddit findall (Broken e # posts) =
     (let (stores, logged) = parse_reddit findall posts
      in (stores, Log_warning (''Error parsing Reddit post: '' @ e) # logged))"

definition search_reddit ::
  "(string \<Rightarrow> string \<Rightarrow> string list) \<Rightarrow> reddit_post http_result
     \<Rightarrow> store_data list \<times> log_record list" where
  "search_reddit findall response =
     (case response of
        Http_error e \<Rightarrow> ([], [Log_error (''Error searching Reddit: '' @ e)])
      | Http_response status_code body url \<Rightarrow>
          if status_code \<noteq> 200 then ([], [])
          else (case body of
                  None \<Rightarrow> ([], [Log_error ''Error searching Reddit: unreadable body''])
                | Some posts \<Rightarrow> parse_reddit findall posts))"

definition example_listing :: yellow_pages_result where
  "example_listing = \<lparr>business_name = Some '' Movie Barn '', street_address = Some ''1 Main St'',
          locality = Some ''Austin, TX'', phones = None, track_visit_website = None\<rparr>"

subsection \<open>Substring containment\<close>

text \<open>
  "\<open>str\<close> contains \<open>pat\<close> as a case-insensitive substring", written from the words of
  the specification: at some offset, \<open>str\<close> reads \<open>pat\<close> up to the case of letters.
\<close>

definition contains_ignoring_case :: "string \<Rightarrow> string \<Rightarrow> bool" where
  "contains_ignoring_case pat str =
     list_ex (\<lambda>i. take (length pat) (drop i (map to_lower str)) = map to_lower pat)
             [0..<Suc (length str)]"

fun field_contains :: "string \<Rightarrow> string option \<Rightarrow> bool" where
  "field_contains pat None = False"
| "field_contains pat (Some str) = contains_ignoring_case pat str"

section \<open>Background jobs (server.py lines 340-465 and 560-630)\<close>

subsection \<open>The state of the process\<close>

text \<open>
  The globals of the module: the database, the Hunter client, the keys of the dictionary
  \<^verbatim>\<open>active_jobs\<close> and the log. Next to them the tasks of the event loop: every
  \<^verbatim>\<open>asyncio.create_task(process_search_job(job.id))\<close> adds one, with the job id it was
  given. A task is \<open>Created\<close> until it first runs, \<open>Working job\<close> once it has set the status
  to running (\<open>job\<close> is its local variable of that name), and \<open>Done\<close> when the coroutine has
  ended.
\<close>

datatype task = Created | Working SearchJob | Done

record app_state =
  mongo :: database
  hunter_client :: HunterAPIClient
  active_jobs :: "string list"
  tasks :: "(string \<times> task) list"
  logged :: "log_record list"

subsection \<open>Starting a job (lines 560-630)\<close>

text \<open>
  \<^verbatim>\<open>SearchJob(job_type=..., parameters=...)\<close> with the defaults of the class, and the three
  statements every start route ends with: insert the job, create its task, register the
  task under the job id.
\<close>

definition no_parameters :: job_parameters where
  "no_parameters =
     \<lparr>query = None, location = None, max_results = None, max_posts = None, store_ids = None\<rparr>"

definition new_SearchJob :: "string \<Rightarrow> datetime \<Rightarrow> job_type \<Rightarrow> job_parameters \<Rightarrow> SearchJob" where
  "new_SearchJob uuid4 utcnow jt params =
     \<lparr>job_id = uuid4, job_type = jt, status = pending, parameters = params, results = None,
      error_message = None, job_created_at = utcnow, completed_at = None, stores_found = 0,
      credits_used = 0\<rparr>"

definition launch :: "SearchJob \<Rightarrow> app_state \<Rightarrow> app_state" where
  "launch job s =
     s\<lparr>mongo := (mongo s)\<lparr>search_jobs := insert_one job (search_jobs (mongo s))\<rparr>,
       tasks := tasks s @ [(job_id job, Created)],
       active_jobs := List.insert (job_id job) (active_jobs s)\<rparr>"

record start_response =
  response_job_id :: string
  response_status :: string
  stores_to_process :: "nat option"

text \<open>A parameter the request leaves out has the default of the route's signature.\<close>

definition start_directory_search ::
  "string \<Rightarrow> datetime \<Rightarrow> string option \<Rightarrow> string option \<Rightarrow> int option \<Rightarrow> app_state
     \<Rightarrow> start_response \<times> app_state" where
  "start_directory_search uuid4 utcnow query_arg location_arg max_results_arg s =
     (let job = new_SearchJob uuid4 utcnow directory_search
                  (no_parameters
                     \<lparr>query := Some (case query_arg of None \<Rightarrow> ''DVD store'' | Some q \<Rightarrow> q),
                      location :=
                        Some (case location_arg of None \<Rightarrow> ''United States'' | Some l \<Rightarrow> l),
                      max_results :=
                        Some (case max_results_arg of None \<Rightarrow> 100 | Some m \<Rightarrow> m)\<rparr>)
      in (\<lparr>response_job_id = job_id job, response_status = ''started'',
            stores_to_process = None\<rparr>,
          launch job s))"

definition start_reddit_search ::
  "string \<Rightarrow> datetime \<Rightarrow> string option \<Rightarrow> int option \<Rightarrow> app_state
     \<Rightarrow> start_response \<times> app_state" where
  "start_reddit_search uuid4 utcnow query_arg max_posts_arg s =
     (let job = new_SearchJob uuid4 utcnow reddit_search
                  (no_parameters
                     \<lparr>query := Some (case query_arg of
                                       None \<Rightarrow> ''DVD store recommendations'' | Some q \<Rightarrow> q),
                      max_posts := Some (case max_posts_arg of None \<Rightarrow> 100 | Some m \<Rightarrow> m)\<rparr>)
      in (\<lparr>response_job_id = job_id job, response_status = ''started'',
            stores_to_process = None\<rparr>,
          launch job s))"



definition example_state :: "DVDStore list \<Rightarrow> app_state" where
  "example_state docs =
     \<lparr>mongo = \<lparr>dvd_stores = docs, search_jobs = []\<rparr>,
      hunter_client = \<lparr>request_timestamps = [], requests_sent = 0\<rparr>,
      active_jobs = [], tasks = [], logged = []\<rparr>"

subsection \<open>Storing the stores a job found (lines 425-434)\<close>

text \<open>
  One round of \<^verbatim>\<open>for store_data in results["stores"]\<close> and what it meets. The task gives
  up control at each \<^verbatim>\<open>await\<close>, and the requests and the other tasks of the process run
  meanwhile: \<open>others_before_find\<close> is what they do to the collection before the lookup of
  this round is answered, \<open>others_before_insert\<close> what they do between the lookup and the
  insertion. Each of the two database calls may raise (\<open>Some\<close> text of the exception), which
  the \<^verbatim>\<open>except\<close> of the round logs. \<^verbatim>\<open>DVDStore(**store_data)\<close> takes a fresh id and two
  clock readings.
\<close>

record insert_env =
  uuid4_store :: string
  utcnow_created :: datetime
  utcnow_updated :: datetime
  others_before_find :: "DVDStore list \<Rightarrow> DVDStore list"
  find_raises :: "string option"
  others_before_insert :: "DVDStore list \<Rightarrow> DVDStore list"
  insert_raises :: "string option"

definition DVDStore_of :: "insert_env \<Rightarrow> store_data \<Rightarrow> DVDStore" where
  "DVDStore_of e sd =
     \<lparr>store_id = uuid4_store e, name = found_name sd, address = found_address sd,
      city = found_city sd, state = None, phone = found_phone sd, website = found_website sd,
      email = None, email_confidence = None, source = found_source sd,
      source_url = found_source_url sd, store_notes = found_notes sd, verified = False,
      created_at = utcnow_created e, updated_at = utcnow_updated e\<rparr>"

definition warn :: "string \<Rightarrow> app_state \<Rightarrow> app_state" where
  "warn msg s = s\<lparr>logged := logged s @ [Log_warning msg]\<rparr>"

definition set_stores :: "DVDStore list \<Rightarrow> app_state \<Rightarrow> app_state" where
  "set_stores docs s = s\<lparr>mongo := (mongo s)\<lparr>dvd_stores := docs\<rparr>\<rparr>"

definition store_round :: "insert_env \<Rightarrow> store_data \<Rightarrow> app_state \<times> nat \<Rightarrow> app_state \<times> nat" where
  "store_round e sd acc =
     (let (s, counted) = acc;
          store = DVDStore_of e sd;
          docs1 = others_before_find e (dvd_stores (mongo s))
      in case find_raises e of
           Some msg \<Rightarrow> (warn (''Error storing store: '' @ msg) (set_stores docs1 s), counted)
         | None \<Rightarrow>
             (case find_one (\<lambda>d. name d = name store \<and> city d = city store) docs1 of
                Some existing \<Rightarrow> (set_stores docs1 s, counted)
              | None \<Rightarrow>
                  (let docs2 = others_before_insert e docs1
                   in case insert_raises e of
                        Some msg \<Rightarrow>
                          (warn (''Error storing store: '' @ msg) (set_stores docs2 s), counted)
                      | None \<Rightarrow> (set_stores (insert_one store docs2) s, counted + 1))))"

fun store_loop ::
  "(nat \<Rightarrow> insert_env) \<Rightarrow> nat \<Rightarrow> store_data list \<Rightarrow> app_state \<times> nat \<Rightarrow> app_state \<times> nat" where
  "store_loop env k [] acc = acc"
| "store_loop env k (sd # found) acc = store_loop env (Suc k) found (store_round (env k) sd acc)"

text \<open>
  The pair the lookup compares, of a stored record and of a candidate; and a run that no
  other task or request writes into.
\<close>

definition dedup_key :: "DVDStore \<Rightarrow> string \<times> string option" where
  "dedup_key d = (name d, city d)"

definition found_key :: "store_data \<Rightarrow> string \<times> string option" where
  "found_key sd = (found_name sd, found_city sd)"

definition undisturbed :: "(nat \<Rightarrow> insert_env) \<Rightarrow> bool" where
  "undisturbed env \<longleftrightarrow>
     (\<forall>k docs. others_before_find (env k) docs = docs \<and> others_before_insert (env k) docs = docs)"

text \<open>
  A store found twice by a Reddit search, a run that nobody disturbs, and a run during
  which a client renames the first record the run inserted and then renames it back
  (two \<^verbatim>\<open>PUT /stores/{id}\<close> requests), while the second round waits for its lookup and for
  its insertion.
\<close>

definition example_found :: store_data where
  "example_found =
     \<lparr>found_name = ''Movie Barn'', found_address = None, found_city = None,
      found_phone = None, found_website = None, found_source = ''reddit'',
      found_source_url = Some ''https://reddit.com/r/dvd/1'',
      found_notes = Some ''Found in Reddit post: Best shops...''\<rparr>"

definition quiet_rounds :: "nat \<Rightarrow> insert_env" where
  "quiet_rounds k =
     \<lparr>uuid4_store = replicate (Suc k) (CHR ''u''), utcnow_created = 10 + int k,
      utcnow_updated = 10 + int k, others_before_find = (\<lambda>docs. docs), find_raises = None,
      others_before_insert = (\<lambda>docs. docs), insert_raises = None\<rparr>"

definition put_name :: "datetime \<Rightarrow> string \<Rightarrow> string \<Rightarrow> DVDStore list \<Rightarrow> DVDStore list" where
  "put_name utcnow sid new_name docs =
     dvd_stores (snd (update_store utcnow sid
        \<lparr>name_in = new_name, address_in = Unset, city_in = Unset, state_in = Unset,
         phone_in = Unset, website_in = Unset, email_in = Unset, source_in = Unset,
         source_url_in = Unset, notes_in = Unset\<rparr>
        \<lparr>dvd_stores = docs, search_jobs = []\<rparr>))"

definition disturbed_rounds :: "nat \<Rightarrow> insert_env" where
  "disturbed_rounds k =
     (if k = 1
      then (quiet_rounds k)
             \<lparr>others_before_find := put_name 20 ''u'' ''Closed'',
              others_before_insert := put_name 21 ''u'' ''Movie Barn''\<rparr>
      else quiet_rounds k)"

subsection \<open>The email loop (lines 386-423)\<close>

text \<open>
  \<^verbatim>\<open>str.replace(old, new)\<close> for a non-empty \<open>old\<close> (left to right, without overlap), and
  the domain of a website:
  \<^verbatim>\<open>website.replace("http://", "").replace("https://", "").replace("www.", "").split("/")[0]\<close>.
\<close>

fun replace_from :: "string \<Rightarrow> string \<Rightarrow> nat \<Rightarrow> string \<Rightarrow> string" where
  "replace_from old new n [] = []"
| "replace_from old new (Suc n) (c # cs) = replace_from old new n cs"
| "replace_from old new 0 (c # cs) =
     (if take (length old) (c # cs) = old
      then new @ replace_from old new (length old - 1) cs
      else c # replace_from old new 0 cs)"

definition str_replace :: "string \<Rightarrow> string \<Rightarrow> string \<Rightarrow> string" where
  "str_replace old new s = replace_from old new 0 s"

definition domain_of :: "string \<Rightarrow> string" where
  "domain_of w =
     takeWhile (\<lambda>c. c \<noteq> CHR ''/'')
       (str_replace ''www.'' [] (str_replace ''https://'' [] (str_replace ''http://'' [] w)))"

text \<open>
  The Hunter API as the loop meets it: the answer to the \<open>n\<close>-th request of the client, for
  a domain; \<open>emails_of_body\<close> is \<^verbatim>\<open>response.json()\<close> followed by
  \<^verbatim>\<open>.get("data", {}).get("emails", [])\<close>, \<open>None\<close> when the body does not decode; the clock
  the rate limiter reads; and \<^verbatim>\<open>str(e)\<close> of an exception. A candidate is the dictionary of
  one email: \<^verbatim>\<open>.get("value")\<close> and \<^verbatim>\<open>.get("confidence", 0)\<close> (\<open>None\<close> for an absent key).
  \<^verbatim>\<open>hunter_client.domain_search(domain, limit=5)\<close> is one \<^verbatim>\<open>_make_request\<close> of the shared
  client.
\<close>

record email_candidate =
  email_value :: "string option"
  confidence :: "real option"

record hunter_env =
  hunter_get :: "string \<Rightarrow> nat \<Rightarrow> http_outcome"
  emails_of_body :: "string \<Rightarrow> email_candidate list option"
  timestamp_now :: "nat \<Rightarrow> real"
  exception_str :: "exception \<Rightarrow> string"

definition domain_search ::
  "hunter_env \<Rightarrow> string \<Rightarrow> HunterAPIClient
     \<Rightarrow> (exception + email_candidate list) \<times> HunterAPIClient" where
  "domain_search h domain self =
     (let (result, events, self') =
            make_request (emails_of_body h) (hunter_get h domain)
              (timestamp_now h (requests_sent self)) self
      in (result, self'))"

text \<open>
  One round of \<^verbatim>\<open>for store_id in store_ids\<close>, on the state and the counter
  \<^verbatim>\<open>results["credits_used"]\<close>, and what it meets: what the requests and the other tasks do
  to the collection before the lookup of the store is answered (\<open>others_before_lookup\<close>)
  and between that lookup and the write (\<open>others_during_search\<close>, while the task waits for
  the Hunter API), whether the two database calls raise, and the clock reading of the
  write. The \<^verbatim>\<open>asyncio.sleep(1)\<close> that ends a round changes no state and is left out.
\<close>

record lookup_env =
  others_before_lookup :: "DVDStore list \<Rightarrow> DVDStore list"
  find_store_raises :: "string option"
  others_during_search :: "DVDStore list \<Rightarrow> DVDStore list"
  set_email_raises :: "string option"
  utcnow_lookup :: datetime

definition set_email :: "lookup_env \<Rightarrow> email_candidate \<Rightarrow> store_set" where
  "set_email e best_email =
     set_nothing
       \<lparr>set_email := Given (email_value best_email),
        set_email_confidence :=
          Given (Some ((case confidence best_email of None \<Rightarrow> 0 | Some c \<Rightarrow> c) / 100)),
        set_updated_at := Given (utcnow_lookup e)\<rparr>"

definition discover_email ::
  "lookup_env \<Rightarrow> hunter_env \<Rightarrow> string \<Rightarrow> app_state \<times> nat \<Rightarrow> app_state \<times> nat" where
  "discover_email e h sid acc =
     (let (s, credits) = acc;
          docs1 = others_before_lookup e (dvd_stores (mongo s));
          s1 = set_stores docs1 s
      in case find_store_raises e of
           Some msg \<Rightarrow> (warn (''Error processing store '' @ sid @ '': '' @ msg) s1, credits)
         | None \<Rightarrow>
             (case find_one (\<lambda>d. store_id d = sid) docs1 of
                None \<Rightarrow> (s1, credits)
              | Some store_doc \<Rightarrow>
                  (case website store_doc of
                     None \<Rightarrow> (s1, credits)
                   | Some w \<Rightarrow>
                       if w = [] then (s1, credits)
                       else
                         (let domain = domain_of w;
                              (search_result, client) = domain_search h domain (hunter_client s1);
                              docs2 = others_during_search e docs1;
                              s2 = (set_stores docs2 s1)\<lparr>hunter_client := client\<rparr>
                          in case search_result of
                               Inl exn \<Rightarrow>
                                 (warn (''Failed to find email for '' @ domain @ '': ''
                                          @ exception_str h exn) s2, credits)
                             | Inr [] \<Rightarrow> (s2, credits)
                             | Inr (best_email # others) \<Rightarrow>
                                 (case set_email_raises e of
                                    Some msg \<Rightarrow>
                                      (warn (''Failed to find email for '' @ domain @ '': '' @ msg)
                                         s2, credits)
                                  | None \<Rightarrow>
                                      (set_stores
                                         (update_one (\<lambda>d. store_id d = sid)
                                            (apply_set (set_email e best_email)) docs2) s2,
                                       credits + 1))))))"

fun email_loop ::
  "(nat \<Rightarrow> lookup_env) \<Rightarrow> hunter_env \<Rightarrow> nat \<Rightarrow> string list \<Rightarrow> app_state \<times> nat
     \<Rightarrow> app_state \<times> nat" where
  "email_loop env h k [] acc = acc"
| "email_loop env h k (sid # ids) acc =
     email_loop env h (Suc k) ids (discover_email (env k) h sid acc)"

text \<open>
  An API that knows one address for every domain, a round that nobody disturbs, and a
  round during which a client deletes the store (\<^verbatim>\<open>DELETE /stores/s1\<close>) while the task
  waits for the API.
\<close>

definition example_hunter :: hunter_env where
  "example_hunter =
     \<lparr>hunter_get = (\<lambda>domain n. Response 200 ''{...}''),
      emails_of_body =
        (\<lambda>body. Some [\<lparr>email_value = Some ''info@vintagevideo.example'',
                         confidence = Some 92\<rparr>]),
      timestamp_now = (\<lambda>n. real n),
      exception_str = (\<lambda>exn. ''error'')\<rparr>"

definition quiet_lookup :: lookup_env where
  "quiet_lookup =
     \<lparr>others_before_lookup = (\<lambda>docs. docs), find_store_raises = None,
      others_during_search = (\<lambda>docs. docs), set_email_raises = None, utcnow_lookup = 300\<rparr>"

definition deleting_lookup :: lookup_env where
  "deleting_lookup =
     quiet_lookup\<lparr>others_during_search :=
                    (\<lambda>docs. dvd_stores (snd (delete_store ''s1''
                                               \<lparr>dvd_stores = docs, search_jobs = []\<rparr>)))\<rparr>"

section \<open>Properties of the rate limiter\<close>



lemma filter_recent_kept:
  "filter (\<lambda>t. now - 60 < t \<and> now - 1 < t) ts = filter (\<lambda>t. now - (1::real) < t) ts"
  by (rule filter_cong) auto
















lemma enforce_rate_limit_uninterrupted:
  "concat (fst (run_limiter [Call now, Wake 0, Wake 0] \<lparr>recorded = ts, in_flight = []\<rparr>))
     = fst (enforce_rate_limit now ts)
   \<and> snd (run_limiter [Call now, Wake 0, Wake 0] \<lparr>recorded = ts, in_flight = []\<rparr>)
     = \<lparr>recorded = snd (enforce_rate_limit now ts), in_flight = []\<rparr>"
  by (simp add: enforce_rate_limit_def call_def wake_def second_check_def Let_def)

section \<open>Properties of the request wrapper\<close>

text \<open>
  Claim C7. The error a request ends in is fixed by the outcome of its one GET: status 401
  gives the error 401 "Invalid API key", and nothing else gives that error; status 403
  gives 429 "Rate limit exceeded or insufficient credits"; a timeout gives 408; every
  other status outside 200-299 gives an error with the provider's status and body; any
  other request error gives 503 with its message. Each call sends exactly one GET.
\<close>

theorem make_request_errors:
  fixes parse_json :: "string \<Rightarrow> 'j option"
    and network :: "nat \<Rightarrow> http_outcome" and now :: real and self :: HunterAPIClient
  defines "outcome \<equiv> network (requests_sent self)"
  defines "result \<equiv> fst (make_request parse_json network now self)"
  shows
    "(\<forall>body. outcome = Response 401 body \<longrightarrow>
        result = Inl (HTTPException 401 ''Invalid API key''))
     \<and> (result = Inl (HTTPException 401 ''Invalid API key'') \<longleftrightarrow>
          (\<exists>body. outcome = Response 401 body))
     \<and> (\<forall>body. outcome = Response 403 body \<longrightarrow>
          result = Inl (HTTPException 429 ''Rate limit exceeded or insufficient credits''))
     \<and> (outcome = TimeoutException \<longrightarrow> result = Inl (HTTPException 408 ''Request timeout''))
     \<and> (\<forall>status_code body.
          outcome = Response status_code body
          \<and> \<not> (200 \<le> status_code \<and> status_code < 300)
          \<and> status_code \<noteq> 401 \<and> status_code \<noteq> 403 \<longrightarrow>
          result = Inl (HTTPException status_code (''API request failed: '' @ body)))
     \<and> (\<forall>msg. outcome = RequestError msg \<longrightarrow>
          result = Inl (HTTPException 503 (''Network error: '' @ msg)))
     \<and> requests_sent (snd (snd (make_request parse_json network now self)))
          = requests_sent self + 1"
  unfolding outcome_def result_def make_request_def
  by (cases "network (requests_sent self)")
     (auto simp: Let_def split: prod.splits option.splits)

theorem make_request_errors_witness:
  "fst (make_request (\<lambda>body. None :: unit option) (\<lambda>n. Response 401 ''denied'') 0
          \<lparr>request_timestamps = [], requests_sent = 0\<rparr>)
     = Inl (HTTPException 401 ''Invalid API key'')
   \<and> fst (make_request (\<lambda>body. None :: unit option) (\<lambda>n. Response 403 ''quota'') 0
          \<lparr>request_timestamps = [], requests_sent = 0\<rparr>)
     = Inl (HTTPException 429 ''Rate limit exceeded or insufficient credits'')
   \<and> fst (make_request (\<lambda>body. None :: unit option) (\<lambda>n. TimeoutException) 0
          \<lparr>request_timestamps = [], requests_sent = 0\<rparr>)
     = Inl (HTTPException 408 ''Request timeout'')
   \<and> fst (make_request (\<lambda>body. None :: unit option) (\<lambda>n. Response 500 ''down'') 0
          \<lparr>request_timestamps = [], requests_sent = 0\<rparr>)
     = Inl (HTTPException 500 ''API request failed: down'')
   \<and> fst (make_request (\<lambda>body. None :: unit option) (\<lambda>n. RequestError ''refused'') 0
          \<lparr>request_timestamps = [], requests_sent = 0\<rparr>)
     = Inl (HTTPException 503 ''Network error: refused'')"
  using
    make_request_errors [where parse_json = "\<lambda>body. None :: unit option" and now = 0
      and network = "\<lambda>n. Response 401 ''denied''" and self = "\<lparr>request_timestamps = [], requests_sent = 0\<rparr>"]
    make_request_errors [where parse_json = "\<lambda>body. None :: unit option" and now = 0
      and network = "\<lambda>n. Response 403 ''quota''" and self = "\<lparr>request_timestamps = [], requests_sent = 0\<rparr>"]
    make_request_errors [where parse_json = "\<lambda>body. None :: unit option" and now = 0
      and network = "\<lambda>n. TimeoutException" and self = "\<lparr>request_timestamps = [], requests_sent = 0\<rparr>"]
    make_request_errors [where parse_json = "\<lambda>body. None :: unit option" and now = 0
      and network = "\<lambda>n. Response 500 ''down''" and self = "\<lparr>request_timestamps = [], requests_sent = 0\<rparr>"]
    make_request_errors [where parse_json = "\<lambda>body. None :: unit option" and now = 0
      and network = "\<lambda>n. RequestError ''refused''" and self = "\<lparr>request_timestamps = [], requests_sent = 0\<rparr>"]
  by simp

section \<open>Properties of the store routes\<close>

lemma find_one_update_one:
  "find_one matches docs = Some old \<Longrightarrow>
   \<exists>pre post. docs = pre @ old # post \<and> (\<forall>d\<in>set pre. \<not> matches d) \<and> matches old
     \<and> update_one matches f docs = pre @ f old # post"
proof (induction docs)
  case Nil
  then show ?case by (simp add: find_one_def)
next
  case (Cons d docs)
  show ?case
  proof (cases "matches d")
    case True
    then have "d = old" using Cons.prems by (simp add: find_one_def)
    then show ?thesis using True
      by (intro exI [of _ "[]"] exI [of _ docs] conjI) simp_all
  next
    case False
    then have "find_one matches docs = Some old" using Cons.prems by (simp add: find_one_def)
    from Cons.IH [OF this] obtain pre post where
      "docs = pre @ old # post" "\<forall>d\<in>set pre. \<not> matches d" "matches old"
      "update_one matches f docs = pre @ f old # post" by blast
    then show ?thesis using False
      by (intro exI [of _ "d # pre"] exI [of _ post] conjI) simp_all
  qed
qed

text \<open>
  Claim C5, as the specification states it, does not hold: \<open>update_store\<close> writes the clock
  reading it takes and never looks at the stored \<open>updated_at\<close>, so the new value is not
  always later than the old one (see \<open>update_store_not_later_counterexample\<close> below).
  Amended: for a store id that exists, \<open>update_store\<close> returns the updated record: every
  field the payload supplies has the supplied value, every field it does not supply (and
  the fields no payload can name: id, email confidence, verified flag, creation time) is
  unchanged, and \<open>updated_at\<close> is the clock reading of the update, whatever the stored value
  was; it is later than the stored one exactly when that clock reading is. Only the first
  document with that id is replaced; the other documents stay as they are.
\<close>

theorem update_store_partial:
  assumes found: "find_one (\<lambda>d. store_id d = sid) (dvd_stores db) = Some old"
  shows "\<exists>new pre post.
      update_store utcnow sid store_update db = (Inr new, db\<lparr>dvd_stores := pre @ new # post\<rparr>)
      \<and> dvd_stores db = pre @ old # post
      \<and> name new = name_in store_update
      \<and> address new = or_keep (address_in store_update) (address old)
      \<and> city new = or_keep (city_in store_update) (city old)
      \<and> state new = or_keep (state_in store_update) (state old)
      \<and> phone new = or_keep (phone_in store_update) (phone old)
      \<and> website new = or_keep (website_in store_update) (website old)
      \<and> email new = or_keep (email_in store_update) (email old)
      \<and> source new = or_keep (source_in store_update) (source old)
      \<and> source_url new = or_keep (source_url_in store_update) (source_url old)
      \<and> store_notes new = or_keep (notes_in store_update) (store_notes old)
      \<and> store_id new = store_id old
      \<and> email_confidence new = email_confidence old
      \<and> verified new = verified old
      \<and> created_at new = created_at old
      \<and> updated_at new = utcnow
      \<and> (updated_at old < updated_at new \<longleftrightarrow> updated_at old < utcnow)"
proof -
  define u where "u = (dict_exclude_unset store_update)\<lparr>set_updated_at := Given utcnow\<rparr>"
  from find_one_update_one [OF found, of "apply_set u"] obtain pre post where
    docs: "dvd_stores db = pre @ old # post"
    and upd: "update_one (\<lambda>d. store_id d = sid) (apply_set u) (dvd_stores db)
               = pre @ apply_set u old # post"
    by blast
  have res: "update_store utcnow sid store_update db
      = (Inr (apply_set u old), db\<lparr>dvd_stores := pre @ apply_set u old # post\<rparr>)"
    by (simp add: update_store_def u_def [symmetric] find_one_and_update_def found upd)
  have fields: "name (apply_set u old) = name_in store_update
      \<and> address (apply_set u old) = or_keep (address_in store_update) (address old)
      \<and> city (apply_set u old) = or_keep (city_in store_update) (city old)
      \<and> state (apply_set u old) = or_keep (state_in store_update) (state old)
      \<and> phone (apply_set u old) = or_keep (phone_in store_update) (phone old)
      \<and> website (apply_set u old) = or_keep (website_in store_update) (website old)
      \<and> email (apply_set u old) = or_keep (email_in store_update) (email old)
      \<and> source (apply_set u old) = or_keep (source_in store_update) (source old)
      \<and> source_url (apply_set u old) = or_keep (source_url_in store_update) (source_url old)
      \<and> store_notes (apply_set u old) = or_keep (notes_in store_update) (store_notes old)
      \<and> store_id (apply_set u old) = store_id old
      \<and> email_confidence (apply_set u old) = email_confidence old
      \<and> verified (apply_set u old) = verified old
      \<and> created_at (apply_set u old) = created_at old
      \<and> updated_at (apply_set u old) = utcnow"
    by (simp add: apply_set_def u_def dict_exclude_unset_def)
  show ?thesis
    using res docs fields
    by (intro exI [of _ "apply_set u old"] exI [of _ pre] exI [of _ post]) simp
qed

theorem update_store_partial_witness:
  "find_one (\<lambda>d. store_id d = ''s1'') (dvd_stores example_db) = Some example_store
   \<and> (\<exists>new pre post.
        update_store 250 ''s1'' example_update example_db
          = (Inr new, example_db\<lparr>dvd_stores := pre @ new # post\<rparr>)
        \<and> name new = ''Vintage Video Palace - Updated''
        \<and> store_notes new = Some ''Updated notes - now also sells Blu-rays''
        \<and> city new = Some ''Los Angeles''
        \<and> verified new = False
        \<and> updated_at new = 250)"
proof -
  have found: "find_one (\<lambda>d. store_id d = ''s1'') (dvd_stores example_db) = Some example_store"
    by (simp add: find_one_def example_db_def example_store_def)
  from update_store_partial [OF found, of 250 example_update]
  obtain new pre post where
    "update_store 250 ''s1'' example_update example_db
          = (Inr new, example_db\<lparr>dvd_stores := pre @ new # post\<rparr>)"
    "name new = name_in example_update"
    "store_notes new = or_keep (notes_in example_update) (store_notes example_store)"
    "city new = or_keep (city_in example_update) (city example_store)"
    "verified new = verified example_store"
    "updated_at new = 250"
    by blast
  then have "update_store 250 ''s1'' example_update example_db
          = (Inr new, example_db\<lparr>dvd_stores := pre @ new # post\<rparr>)
        \<and> name new = ''Vintage Video Palace - Updated''
        \<and> store_notes new = Some ''Updated notes - now also sells Blu-rays''
        \<and> city new = Some ''Los Angeles''
        \<and> verified new = False
        \<and> updated_at new = 250"
    by (simp add: example_update_def example_store_def)
  then show ?thesis using found by blast
qed

text \<open>
  The store of the example was last written at clock reading 100. An update that reads
  the same clock value (two writes within one tick of the clock), or an earlier one (the
  clock was set back in between), leaves \<open>updated_at\<close> equal to, or earlier than, the
  previous value.
\<close>

theorem update_store_not_later_counterexample:
  "find_one (\<lambda>d. store_id d = ''s1'') (dvd_stores example_db) = Some example_store
   \<and> updated_at example_store = 100
   \<and> fst (update_store 100 ''s1'' example_update example_db)
       = Inr (example_store\<lparr>name := ''Vintage Video Palace - Updated'',
                store_notes := Some ''Updated notes - now also sells Blu-rays'',
                updated_at := 100\<rparr>)
   \<and> fst (update_store 50 ''s1'' example_update example_db)
       = Inr (example_store\<lparr>name := ''Vintage Video Palace - Updated'',
                store_notes := Some ''Updated notes - now also sells Blu-rays'',
                updated_at := 50\<rparr>)
   \<and> \<not> updated_at example_store < 100
   \<and> \<not> updated_at example_store < 50"
  by (simp add: update_store_def find_one_and_update_def find_one_def apply_set_def
        dict_exclude_unset_def example_db_def example_store_def example_update_def)

text \<open>
  Claim C10. A request to update a store whose body has no \<open>name\<close> is rejected by
  validation with the same answer whatever the repository holds, and the repository is
  returned as it was; so whenever the route returns a store or changes the repository,
  the body supplied a name, and the returned store carries it.
\<close>

theorem put_store_requires_name:
  "(body ''name'' = None \<longrightarrow>
      put_store utcnow sid body db
        = (Inl (RequestValidationError ''name: field required''), db))
   \<and> (\<forall>d. fst (put_store utcnow sid body db) = Inr d \<longrightarrow>
         body ''name'' = Some (JString (name d)))
   \<and> (snd (put_store utcnow sid body db) \<noteq> db \<longrightarrow> (\<exists>n. body ''name'' = Some (JString n)))"
proof (intro conjI impI allI)
  assume "body ''name'' = None"
  then show "put_store utcnow sid body db
        = (Inl (RequestValidationError ''name: field required''), db)"
    by (simp add: put_store_def validate_DVDStoreCreate_def)
next
  fix d
  assume ok: "fst (put_store utcnow sid body db) = Inr d"
  then obtain u where u: "validate_DVDStoreCreate body = Inr u"
    by (cases "validate_DVDStoreCreate body") (auto simp: put_store_def)
  then have nm: "body ''name'' = Some (JString (name_in u))"
    by (auto simp: validate_DVDStoreCreate_def split: option.splits json_value.splits)
  from ok u have "fst (update_store utcnow sid u db) = Inr d"
    by (simp add: put_store_def)
  then have "name d = name_in u"
    by (auto simp: update_store_def find_one_and_update_def apply_set_def
        dict_exclude_unset_def Let_def split: option.splits)
  with nm show "body ''name'' = Some (JString (name d))" by simp
next
  assume "snd (put_store utcnow sid body db) \<noteq> db"
  then obtain u where u: "validate_DVDStoreCreate body = Inr u"
    by (cases "validate_DVDStoreCreate body") (auto simp: put_store_def)
  then show "\<exists>n. body ''name'' = Some (JString n)"
    by (auto simp: validate_DVDStoreCreate_def split: option.splits json_value.splits)
qed

theorem put_store_requires_name_witness:
  "(Map.empty(''city'' \<mapsto> JString ''Pasadena'')) ''name'' = None
   \<and> put_store 250 ''s1'' (Map.empty(''city'' \<mapsto> JString ''Pasadena'')) example_db
       = (Inl (RequestValidationError ''name: field required''), example_db)"
  using put_store_requires_name [of "Map.empty(''city'' \<mapsto> JString ''Pasadena'')" 250 "''s1''" example_db]
  by simp

section \<open>Properties of the scrapers\<close>

lemma parse_yellow_pages_eq:
  "parse_yellow_pages url rs =
     (map (yellow_pages_store url) [r. Element r \<leftarrow> rs],
      map (\<lambda>e. Log_warning (''Error parsing result: '' @ e)) [e. Broken e \<leftarrow> rs])"
  by (induction url rs rule: parse_yellow_pages.induct) simp_all

lemma parse_yelp_eq:
  "parse_yelp url rs =
     (map (yelp_store url) [r. Element r \<leftarrow> rs],
      map (\<lambda>e. Log_warning (''Error parsing Yelp result: '' @ e)) [e. Broken e \<leftarrow> rs])"
  by (induction url rs rule: parse_yelp.induct) simp_all

lemma parse_reddit_eq:
  "parse_reddit findall ps =
     (concat (map (reddit_post_stores findall) [p. Element p \<leftarrow> ps]),
      map (\<lambda>e. Log_warning (''Error parsing Reddit post: '' @ e)) [e. Broken e \<leftarrow> ps])"
  by (induction findall ps rule: parse_reddit.induct) simp_all

text \<open>
  Claim C9. A scraper never raises: its result is a pair of a list and a log for every
  answer of the network. A response whose status is outside 200..299 gives the empty list
  (the source returns the empty list for every status other than 200), and so does a failed
  request. On a 200 response the returned records are those of the results whose parsing
  went through, in order; every result whose parsing raised is left out and leaves exactly
  one warning in the log.
\<close>

theorem scrapers_best_effort:
  fixes status :: int
  shows "(status < 200 \<or> 299 < status \<longrightarrow>
            fst (search_yellow_pages (Http_response status body url) max_res) = [] \<and>
            fst (search_yelp (Http_response status body_y url) max_res) = [] \<and>
            fst (search_reddit findall (Http_response status body_r url)) = [])
       \<and> search_yellow_pages (Http_response 200 (Some rs) url) max_res =
            (map (yellow_pages_store url) [r. Element r \<leftarrow> slice_to max_res rs],
             map (\<lambda>e. Log_warning (''Error parsing result: '' @ e))
                 [e. Broken e \<leftarrow> slice_to max_res rs])
       \<and> search_yelp (Http_response 200 (Some ys) url) max_res =
            (map (yelp_store url) [r. Element r \<leftarrow> slice_to max_res ys],
             map (\<lambda>e. Log_warning (''Error parsing Yelp result: '' @ e))
                 [e. Broken e \<leftarrow> slice_to max_res ys])
       \<and> search_reddit findall (Http_response 200 (Some ps) url) =
            (concat (map (reddit_post_stores findall) [p. Element p \<leftarrow> ps]),
             map (\<lambda>e. Log_warning (''Error parsing Reddit post: '' @ e))
                 [e. Broken e \<leftarrow> ps])
       \<and> fst (search_yellow_pages (Http_error err) max_res) = []
       \<and> fst (search_yelp (Http_error err) max_res) = []
       \<and> fst (search_reddit findall (Http_error err)) = []"
  unfolding search_yellow_pages_def search_yelp_def search_reddit_def
  by (simp add: parse_yellow_pages_eq parse_yelp_eq parse_reddit_eq)

theorem scrapers_best_effort_witness:
  "fst (search_yellow_pages (Http_response 503 None ''u'') 50) = [] \<and>
   fst (search_yelp (Http_response 503 None ''u'') 50) = [] \<and>
   fst (search_reddit (\<lambda>p t. []) (Http_response 503 None ''u'')) = [] \<and>
   search_yellow_pages
      (Http_response 200 (Some [Broken ''boom'', Element example_listing]) ''u'') 50 =
     ([\<lparr>found_name = ''Movie Barn'', found_address = Some ''1 Main St'',
        found_city = Some ''Austin, TX'', found_phone = None, found_website = None,
        found_source = ''yellow_pages'', found_source_url = Some ''u'',
        found_notes = None\<rparr>],
      [Log_warning ''Error parsing result: boom''])"
  using scrapers_best_effort [of 503 None "''u''" 50 None "\<lambda>p t. []" None
      "[Broken ''boom'', Element example_listing]" "[]" "[]" "''x''"]
  by (simp add: slice_to_def yellow_pages_store_def example_listing_def strip_def is_space_def)

section \<open>Properties of the store listing\<close>

lemma contains_ignoring_case_iff:
  "contains_ignoring_case pat str \<longleftrightarrow>
     (\<exists>pre suf. map to_lower str = pre @ map to_lower pat @ suf)"
proof
  assume "contains_ignoring_case pat str"
  then obtain i where i: "i \<le> length str"
      "take (length pat) (drop i (map to_lower str)) = map to_lower pat"
    unfolding contains_ignoring_case_def list_ex_iff set_upt
    by (auto simp: less_Suc_eq_le)
  have "map to_lower str =
          take i (map to_lower str) @ take (length pat) (drop i (map to_lower str))
            @ drop (length pat) (drop i (map to_lower str))"
    by (simp only: append_take_drop_id)
  then show "\<exists>pre suf. map to_lower str = pre @ map to_lower pat @ suf"
    using i(2) by metis
next
  assume "\<exists>pre suf. map to_lower str = pre @ map to_lower pat @ suf"
  then obtain pre suf where eq: "map to_lower str = pre @ map to_lower pat @ suf" by blast
  then have "length str = length pre + length pat + length suf"
    by (metis length_append length_map add.assoc)
  then have "length pre \<le> length str" by simp
  moreover have "take (length pat) (drop (length pre) (map to_lower str)) = map to_lower pat"
    unfolding eq by simp
  ultimately show "contains_ignoring_case pat str"
    unfolding contains_ignoring_case_def list_ex_iff set_upt
    by (intro bexI [of _ "length pre"]) (simp_all add: less_Suc_eq_le)
qed

lemma not_meta_not_dot: "\<not> is_meta p \<Longrightarrow> p \<noteq> CHR ''.''"
  by (auto simp: is_meta_def)

lemma match_here_literal:
  "list_all (\<lambda>p. \<not> is_meta p) pat \<Longrightarrow>
   match_here pat str \<longleftrightarrow> take (length pat) (map to_lower str) = map to_lower pat"
proof (induction pat str rule: match_here.induct)
  case (1 str)
  show ?case by simp
next
  case (2 p ps)
  show ?case by simp
next
  case (3 p ps c cs)
  then show ?case using not_meta_not_dot [of p] by auto
qed

lemma search_from_drop:
  "search_from pat str \<longleftrightarrow> (\<exists>i\<le>length str. match_here pat (drop i str))"
proof (induction str)
  case Nil
  show ?case by simp
next
  case (Cons c cs)
  show ?case
  proof
    assume "search_from pat (c # cs)"
    then consider "match_here pat (c # cs)" | "search_from pat cs" by auto
    then show "\<exists>i\<le>length (c # cs). match_here pat (drop i (c # cs))"
    proof cases
      case 1
      then show ?thesis by (intro exI [of _ 0]) simp
    next
      case 2
      then obtain i where "i \<le> length cs" "match_here pat (drop i cs)"
        using Cons.IH by blast
      then show ?thesis by (intro exI [of _ "Suc i"]) simp
    qed
  next
    assume "\<exists>i\<le>length (c # cs). match_here pat (drop i (c # cs))"
    then obtain i where i: "i \<le> length (c # cs)" "match_here pat (drop i (c # cs))" by blast
    show "search_from pat (c # cs)"
    proof (cases i)
      case 0
      then show ?thesis using i by simp
    next
      case (Suc j)
      then have "j \<le> length cs" "match_here pat (drop j cs)" using i by simp_all
      then show ?thesis using Cons.IH by auto
    qed
  qed
qed

lemma search_from_literal:
  assumes "list_all (\<lambda>p. \<not> is_meta p) pat"
  shows "search_from pat str \<longleftrightarrow> contains_ignoring_case pat str"
  unfolding search_from_drop contains_ignoring_case_def list_ex_iff set_upt
  using match_here_literal [OF assms]
  by (simp add: drop_map less_Suc_eq_le Bex_def)

lemma regex_search_literal:
  assumes "list_all (\<lambda>p. \<not> is_meta p) pat"
  shows "regex_search pat str = Some (contains_ignoring_case pat str)"
proof -
  have "list_all (\<lambda>p. p = CHR ''.'' \<or> \<not> is_meta p) pat"
    using assms by (simp add: list_all_iff)
  then show ?thesis
    unfolding regex_search_def using search_from_literal [OF assms] by simp
qed


lemma regex_field_literal:
  assumes "list_all (\<lambda>p. \<not> is_meta p) pat"
  shows "regex_field pat fld = Some (field_contains pat fld)"
  using regex_search_literal [OF assms] by (cases fld) simp_all

lemma contains_ignoring_case_Nil: "contains_ignoring_case [] str"
  unfolding contains_ignoring_case_def list_ex_iff set_upt
  by (intro bexI [of _ 0]) simp_all

text \<open>
  Claim C8, as the specification states it, does not hold: the term is handed to the
  database as a regular expression (\<^verbatim>\<open>$regex\<close>), so a term with a metacharacter is not
  matched as a substring (see \<open>get_stores_regex_counterexample\<close> below). Amended: with
  \<open>skip\<close> at least 0 and \<open>limit\<close> from 1 to 500, and a search term that has no
  regular-expression metacharacter, the result is the page \<open>take limit (drop skip ...)\<close> of
  the stored records, in storage order, whose name, city or address contains the term as a
  case-insensitive substring, whose state equals the given state (a state that is absent or
  empty does not filter) and whose verified flag equals the given flag; with \<open>skip\<close> below
  0 or \<open>limit\<close> outside 1..500 the request is rejected by validation.
\<close>

theorem get_stores_filter:
  "(skip < 0 \<or> limit < 1 \<or> 500 < limit \<longrightarrow>
      (\<exists>msg. get_stores skip limit search st v db = Some (Inl (RequestValidationError msg))))
   \<and> (0 \<le> skip \<and> 1 \<le> limit \<and> limit \<le> 500 \<and>
        list_all (\<lambda>p. \<not> is_meta p) (case search of None \<Rightarrow> [] | Some pat \<Rightarrow> pat) \<longrightarrow>
      get_stores skip limit search st v db =
        Some (Inr (take (nat limit) (drop (nat skip)
          (filter (\<lambda>d. (case search of
                           None \<Rightarrow> True
                         | Some pat \<Rightarrow> contains_ignoring_case pat (name d)
                                      \<or> field_contains pat (city d)
                                      \<or> field_contains pat (address d))
                      \<and> (case st of None \<Rightarrow> True | Some s \<Rightarrow> s = [] \<or> state d = Some s)
                      \<and> (case v of None \<Rightarrow> True | Some b \<Rightarrow> verified d = b))
                  (dvd_stores db))))))"
proof (intro conjI impI)
  assume "skip < 0 \<or> limit < 1 \<or> 500 < limit"
  then show "\<exists>msg. get_stores skip limit search st v db
                 = Some (Inl (RequestValidationError msg))"
    unfolding get_stores_def by auto
next
  assume a: "0 \<le> skip \<and> 1 \<le> limit \<and> limit \<le> 500 \<and>
        list_all (\<lambda>p. \<not> is_meta p) (case search of None \<Rightarrow> [] | Some pat \<Rightarrow> pat)"
  let ?state_ok = "\<lambda>d. case st of None \<Rightarrow> True | Some s \<Rightarrow> s = [] \<or> state d = Some s"
  let ?verified_ok = "\<lambda>d. case v of None \<Rightarrow> True | Some b \<Rightarrow> verified d = b"
  let ?search_ok = "\<lambda>d. case search of
                           None \<Rightarrow> True
                         | Some pat \<Rightarrow> contains_ignoring_case pat (name d)
                                      \<or> field_contains pat (city d)
                                      \<or> field_contains pat (address d)"
  have f: "filter_dict search st v = Some (\<lambda>d. ?search_ok d \<and> ?state_ok d \<and> ?verified_ok d)"
  proof (cases search)
    case None
    then show ?thesis unfolding filter_dict_def by simp
  next
    case (Some pat)
    then have lit: "list_all (\<lambda>p. \<not> is_meta p) pat" using a by simp
    show ?thesis
    proof (cases "pat = []")
      case True
      then show ?thesis unfolding filter_dict_def using Some
        by (simp add: contains_ignoring_case_Nil)
    next
      case False
      then show ?thesis unfolding filter_dict_def Let_def using Some
        by (simp add: regex_search_literal [OF lit] regex_field_literal [OF lit]
                 del: regex_field.simps)
    qed
  qed
  show "get_stores skip limit search st v db =
        Some (Inr (take (nat limit) (drop (nat skip)
          (filter (\<lambda>d. ?search_ok d \<and> ?state_ok d \<and> ?verified_ok d) (dvd_stores db)))))"
    unfolding get_stores_def using a by (simp add: f)
qed

theorem get_stores_filter_witness:
  "get_stores 0 100 (Some ''video'') (Some ''CA'') (Some False) example_db
     = Some (Inr [example_store])
   \<and> get_stores 0 100 (Some ''VIDEO'') (Some ''NY'') None example_db = Some (Inr [])
   \<and> (\<exists>msg. get_stores 0 501 None None None example_db
               = Some (Inl (RequestValidationError msg)))"
  using get_stores_filter [of 0 100 "Some ''video''" "Some ''CA''" "Some False" example_db]
        get_stores_filter [of 0 100 "Some ''VIDEO''" "Some ''NY''" None example_db]
        get_stores_filter [of 0 501 None None None example_db]
  by (simp add: example_db_def example_store_def is_meta_def contains_ignoring_case_def
        to_lower_def)

text \<open>
  The search term \<^verbatim>\<open>.\<close> returns a store none of whose name, city and address contains
  a dot.
\<close>

theorem get_stores_regex_counterexample:
  "get_stores 0 100 (Some ''.'') None None example_db = Some (Inr [example_store])
   \<and> \<not> contains_ignoring_case ''.'' (name example_store)
   \<and> \<not> field_contains ''.'' (city example_store)
   \<and> \<not> field_contains ''.'' (address example_store)"
  by (simp add: get_stores_def filter_dict_def regex_search_def is_meta_def example_db_def
        example_store_def contains_ignoring_case_def to_lower_def)

section \<open>Properties of the job routes\<close>





section \<open>Properties of the store loop\<close>

lemma find_one_None_iff:
  "find_one matches docs = None \<longleftrightarrow> (\<forall>d\<in>set docs. \<not> matches d)"
  by (auto simp: find_one_def find_None_iff)

lemma find_one_Some_matches:
  "find_one matches docs = Some d \<Longrightarrow> d \<in> set docs \<and> matches d"
  by (auto simp: find_one_def find_Some_iff)

lemma dedup_key_DVDStore_of [simp]: "dedup_key (DVDStore_of e sd) = found_key sd"
  by (simp add: dedup_key_def found_key_def DVDStore_of_def)

lemma store_round_undisturbed:
  assumes "others_before_find e = (\<lambda>docs. docs)" "others_before_insert e = (\<lambda>docs. docs)"
  shows "\<exists>new. dvd_stores (mongo (fst (store_round e sd (s, counted)))) = dvd_stores (mongo s) @ new
           \<and> snd (store_round e sd (s, counted)) = counted + length new
           \<and> (new = [] \<or> new = [DVDStore_of e sd])
           \<and> (\<forall>d\<in>set new. dedup_key d \<notin> dedup_key ` set (dvd_stores (mongo s)))
           \<and> search_jobs (mongo (fst (store_round e sd (s, counted)))) = search_jobs (mongo s)
           \<and> tasks (fst (store_round e sd (s, counted))) = tasks s"
proof (cases "find_raises e")
  case (Some msg)
  then show ?thesis
    by (intro exI [of _ "[]"]) (simp add: store_round_def assms warn_def set_stores_def)
next
  case None
  note no_find_fault = this
  let ?store = "DVDStore_of e sd"
  show ?thesis
  proof (cases "find_one (\<lambda>d. name d = name ?store \<and> city d = city ?store) (dvd_stores (mongo s))")
    case (Some existing)
    then show ?thesis using no_find_fault
      by (intro exI [of _ "[]"]) (simp add: store_round_def assms set_stores_def)
  next
    case None
    then have fresh: "dedup_key ?store \<notin> dedup_key ` set (dvd_stores (mongo s))"
      unfolding find_one_None_iff dedup_key_def by auto
    show ?thesis
    proof (cases "insert_raises e")
      case (Some msg)
      then show ?thesis using no_find_fault None
        by (intro exI [of _ "[]"]) (simp add: store_round_def assms warn_def set_stores_def)
    next
      case ins: None
      show ?thesis using no_find_fault None ins fresh
        by (intro exI [of _ "[?store]"])
           (simp add: store_round_def assms set_stores_def insert_one_def)
    qed
  qed
qed

lemma store_loop_undisturbed:
  assumes "undisturbed env"
  shows "\<exists>new. dvd_stores (mongo (fst (store_loop env k found (s, counted))))
                 = dvd_stores (mongo s) @ new
           \<and> snd (store_loop env k found (s, counted)) = counted + length new
           \<and> distinct (map dedup_key new)
           \<and> (\<forall>d\<in>set new. dedup_key d \<notin> dedup_key ` set (dvd_stores (mongo s)))
           \<and> dedup_key ` set new \<subseteq> found_key ` set found
           \<and> search_jobs (mongo (fst (store_loop env k found (s, counted)))) = search_jobs (mongo s)
           \<and> tasks (fst (store_loop env k found (s, counted))) = tasks s"
proof (induction found arbitrary: k s counted)
  case Nil
  show ?case by (intro exI [of _ "[]"]) simp
next
  case (Cons sd found)
  have quiet: "others_before_find (env k) = (\<lambda>docs. docs)"
              "others_before_insert (env k) = (\<lambda>docs. docs)"
    using assms unfolding undisturbed_def by auto
  obtain s1 t1 where r: "store_round (env k) sd (s, counted) = (s1, t1)"
    by (cases "store_round (env k) sd (s, counted)")
  from store_round_undisturbed [OF quiet, of sd s counted] r
  obtain new1 where n1:
    "dvd_stores (mongo s1) = dvd_stores (mongo s) @ new1"
    "t1 = counted + length new1"
    "new1 = [] \<or> new1 = [DVDStore_of (env k) sd]"
    "\<forall>d\<in>set new1. dedup_key d \<notin> dedup_key ` set (dvd_stores (mongo s))"
    "search_jobs (mongo s1) = search_jobs (mongo s)"
    "tasks s1 = tasks s"
    by auto
  from Cons.IH [of "Suc k" s1 t1]
  obtain new2 where n2:
    "dvd_stores (mongo (fst (store_loop env (Suc k) found (s1, t1)))) = dvd_stores (mongo s1) @ new2"
    "snd (store_loop env (Suc k) found (s1, t1)) = t1 + length new2"
    "distinct (map dedup_key new2)"
    "\<forall>d\<in>set new2. dedup_key d \<notin> dedup_key ` set (dvd_stores (mongo s1))"
    "dedup_key ` set new2 \<subseteq> found_key ` set found"
    "search_jobs (mongo (fst (store_loop env (Suc k) found (s1, t1)))) = search_jobs (mongo s1)"
    "tasks (fst (store_loop env (Suc k) found (s1, t1))) = tasks s1"
    by blast
  have step: "store_loop env k (sd # found) (s, counted) = store_loop env (Suc k) found (s1, t1)"
    by (simp add: r)
  have d: "distinct (map dedup_key (new1 @ new2))"
    using n1(3) n2(3,4) n1(1) by auto
  have fresh: "\<forall>d\<in>set (new1 @ new2). dedup_key d \<notin> dedup_key ` set (dvd_stores (mongo s))"
    using n1(4) n2(4) n1(1) by auto
  have sub: "dedup_key ` set (new1 @ new2) \<subseteq> found_key ` set (sd # found)"
    using n1(3) n2(5) by auto
  show ?case
    unfolding step
    using n1 n2 d fresh sub
    by (intro exI [of _ "new1 @ new2"]) simp
qed

text \<open>
  Claim C3, as the specification states it, does not hold: the lookup and the insertion
  are two database calls, the task gives up control at each, and requests served in
  between can change the stored records, so two candidates of one run with the same name
  and city can both end up in storage under that pair (see
  \<open>store_loop_duplicate_counterexample\<close> below). Amended: in each round, with the collection
  as it is when the lookup is answered, a candidate whose (name, city) pair is that of a
  stored record is dropped, with nothing inserted, counted or logged; a candidate whose
  pair is that of no stored record is inserted (after what other tasks did meanwhile) and
  counted; and a candidate is counted only if the lookup found no record with its pair.
  Hence, after a run during which no other task or request writes to the collection, the
  records the run inserted have pairwise different (name, city) pairs, none of them has
  the pair of a record stored before the run, each has the pair of a candidate, and their
  number is the count of the run.
\<close>

theorem store_round_dedup:
  fixes e :: insert_env and env :: "nat \<Rightarrow> insert_env" and s s0 :: app_state
  defines "seen \<equiv> others_before_find e (dvd_stores (mongo s))"
  shows
    "(find_raises e = None \<and> (\<exists>d\<in>set seen. dedup_key d = found_key sd) \<longrightarrow>
        store_round e sd (s, counted) = (set_stores seen s, counted))
     \<and> (find_raises e = None \<and> (\<forall>d\<in>set seen. dedup_key d \<noteq> found_key sd)
          \<and> insert_raises e = None \<longrightarrow>
        store_round e sd (s, counted)
          = (set_stores (others_before_insert e seen @ [DVDStore_of e sd]) s, counted + 1))
     \<and> (snd (store_round e sd (s, counted)) \<noteq> counted \<longrightarrow>
          (\<forall>d\<in>set seen. dedup_key d \<noteq> found_key sd))
     \<and> (undisturbed env \<longrightarrow>
          (\<exists>new. dvd_stores (mongo (fst (store_loop env k found (s0, counted))))
                   = dvd_stores (mongo s0) @ new
             \<and> snd (store_loop env k found (s0, counted)) = counted + length new
             \<and> distinct (map dedup_key new)
             \<and> (\<forall>d\<in>set new. dedup_key d \<notin> dedup_key ` set (dvd_stores (mongo s0)))
             \<and> dedup_key ` set new \<subseteq> found_key ` set found))"
proof -
  let ?matches = "\<lambda>d. name d = name (DVDStore_of e sd) \<and> city d = city (DVDStore_of e sd)"
  have key: "?matches d \<longleftrightarrow> dedup_key d = found_key sd" for d
    by (auto simp: dedup_key_def found_key_def DVDStore_of_def)
  have c1: "store_round e sd (s, counted) = (set_stores seen s, counted)"
    if h: "find_raises e = None \<and> (\<exists>d\<in>set seen. dedup_key d = found_key sd)"
  proof -
    from h have "find_one ?matches seen \<noteq> None"
      unfolding find_one_None_iff key by blast
    then obtain existing where "find_one ?matches seen = Some existing" by blast
    then show ?thesis
      using h by (simp add: store_round_def seen_def [symmetric])
  qed
  have c2: "store_round e sd (s, counted)
          = (set_stores (others_before_insert e seen @ [DVDStore_of e sd]) s, counted + 1)"
    if h: "find_raises e = None \<and> (\<forall>d\<in>set seen. dedup_key d \<noteq> found_key sd)
          \<and> insert_raises e = None"
  proof -
    from h have "find_one ?matches seen = None"
      unfolding find_one_None_iff key by blast
    then show ?thesis
      using h by (simp add: store_round_def seen_def [symmetric] insert_one_def)
  qed
  have c3: "\<forall>d\<in>set seen. dedup_key d \<noteq> found_key sd"
    if h: "snd (store_round e sd (s, counted)) \<noteq> counted"
  proof (rule ccontr)
    assume "\<not> (\<forall>d\<in>set seen. dedup_key d \<noteq> found_key sd)"
    then have ex: "\<exists>d\<in>set seen. dedup_key d = found_key sd" by blast
    show False
    proof (cases "find_raises e")
      case None
      with ex c1 h show False by simp
    next
      case (Some msg)
      with h show False by (simp add: store_round_def)
    qed
  qed
  have c4: "\<exists>new. dvd_stores (mongo (fst (store_loop env k found (s0, counted))))
                   = dvd_stores (mongo s0) @ new
             \<and> snd (store_loop env k found (s0, counted)) = counted + length new
             \<and> distinct (map dedup_key new)
             \<and> (\<forall>d\<in>set new. dedup_key d \<notin> dedup_key ` set (dvd_stores (mongo s0)))
             \<and> dedup_key ` set new \<subseteq> found_key ` set found"
    if "undisturbed env"
    using store_loop_undisturbed [OF that, of k found s0 counted] by blast
  from c1 c2 c3 c4 show ?thesis by blast
qed

lemma undisturbed_quiet_rounds: "undisturbed quiet_rounds"
  by (simp add: undisturbed_def quiet_rounds_def)

theorem store_round_dedup_witness:
  "undisturbed quiet_rounds
   \<and> store_loop quiet_rounds 0 [example_found, example_found] (example_state [], 0)
       = (example_state [DVDStore_of (quiet_rounds 0) example_found], 1)
   \<and> store_round (quiet_rounds 1) example_found
         (example_state [DVDStore_of (quiet_rounds 0) example_found], 1)
       = (example_state [DVDStore_of (quiet_rounds 0) example_found], 1)"
proof -
  have seen: "\<exists>d\<in>set (others_before_find (quiet_rounds 1)
                      (dvd_stores (mongo (example_state [DVDStore_of (quiet_rounds 0) example_found])))).
               dedup_key d = found_key example_found"
    by (simp add: quiet_rounds_def example_state_def)
  have nofault: "find_raises (quiet_rounds 1) = None"
    by (simp add: quiet_rounds_def)
  have second: "store_round (quiet_rounds 1) example_found
         (example_state [DVDStore_of (quiet_rounds 0) example_found], 1)
       = (example_state [DVDStore_of (quiet_rounds 0) example_found], 1)"
    using store_round_dedup [where e = "quiet_rounds 1" and sd = example_found
        and s = "example_state [DVDStore_of (quiet_rounds 0) example_found]" and counted = 1
        and env = quiet_rounds and ?s0.0 = "example_state []" and k = 0 and found = "[]"]
      seen nofault
    by (simp add: set_stores_def example_state_def quiet_rounds_def)
  have first: "store_round (quiet_rounds 0) example_found (example_state [], 0)
       = (example_state [DVDStore_of (quiet_rounds 0) example_found], 1)"
    by (simp add: store_round_def quiet_rounds_def example_state_def find_one_def
          insert_one_def set_stores_def DVDStore_of_def)
  show ?thesis
    using undisturbed_quiet_rounds first second by (simp add: numeral_eq_Suc)
qed

text \<open>
  The same store is found twice. The first candidate is inserted; while the second round
  waits for its lookup a client renames that record, and renames it back while the round
  waits for its insertion: both candidates are stored, with the same name and city.
\<close>

theorem store_loop_duplicate_counterexample:
  "map (\<lambda>d. (store_id d, name d, city d))
     (dvd_stores (mongo (fst
        (store_loop disturbed_rounds 0 [example_found, example_found] (example_state [], 0)))))
     = [(''u'', ''Movie Barn'', None), (''uu'', ''Movie Barn'', None)]
   \<and> snd (store_loop disturbed_rounds 0 [example_found, example_found] (example_state [], 0)) = 2"
  by (simp add: store_round_def disturbed_rounds_def quiet_rounds_def example_state_def
        find_one_def insert_one_def set_stores_def DVDStore_of_def put_name_def
        update_store_def find_one_and_update_def apply_set_def dict_exclude_unset_def
        example_found_def numeral_eq_Suc)

section \<open>Properties of the email loop\<close>

lemma update_one_not_found:
  "find_one matches docs = None \<Longrightarrow> update_one matches f docs = docs"
  by (induction docs) (auto simp: find_one_def split: if_splits)

lemma find_one_after_update_one:
  "find_one matches docs = Some old \<Longrightarrow> matches (f old) \<Longrightarrow>
   find_one matches (update_one matches f docs) = Some (f old)"
  by (induction docs) (auto simp: find_one_def split: if_splits)

text \<open>
  Claim C4, as the specification states it, does not hold: between the lookup of the
  store and the write the task waits for the Hunter API, and a request served meanwhile
  can delete the store; then nothing is written and the credit is counted all the same
  (see \<open>discover_email_deleted_counterexample\<close> below). Amended: for a store that is found
  with a website, when the domain search returns at least one candidate and the write
  does not raise, the first candidate's address, its confidence divided by 100 and the
  clock reading of the write are set on the first stored record with that id as it is
  when the write is made, its other fields staying as they are then, and nothing is
  written when no record has that id any more; the credits counter increases by exactly
  1 in both cases. When the search returns no candidate or raises, or the write raises,
  the task writes nothing to the stores, the counter is unchanged, a failure is logged,
  and the loop goes on with the next store id.
\<close>

theorem discover_email_round:
  fixes e :: lookup_env and h :: hunter_env and s :: app_state
  defines "seen \<equiv> others_before_lookup e (dvd_stores (mongo s))"
  defines "during \<equiv> others_during_search e seen"
  assumes found: "find_store_raises e = None"
      "find_one (\<lambda>d. store_id d = sid) seen = Some store_doc"
      "website store_doc = Some w" "w \<noteq> []"
    and search: "domain_search h (domain_of w) (hunter_client s) = (search_result, client)"
  shows
    "(\<forall>best_email others. search_result = Inr (best_email # others) \<and> set_email_raises e = None \<longrightarrow>
        discover_email e h sid (s, credits)
          = ((set_stores (update_one (\<lambda>d. store_id d = sid)
                            (apply_set (set_email e best_email)) during) s)
               \<lparr>hunter_client := client\<rparr>,
             credits + 1)
        \<and> (\<forall>old. find_one (\<lambda>d. store_id d = sid) during = Some old \<longrightarrow>
              find_one (\<lambda>d. store_id d = sid)
                (dvd_stores (mongo (fst (discover_email e h sid (s, credits)))))
                = Some (old\<lparr>email := email_value best_email,
                            email_confidence :=
                              Some ((case confidence best_email of None \<Rightarrow> 0 | Some c \<Rightarrow> c) / 100),
                            updated_at := utcnow_lookup e\<rparr>))
        \<and> (find_one (\<lambda>d. store_id d = sid) during = None \<longrightarrow>
              dvd_stores (mongo (fst (discover_email e h sid (s, credits)))) = during))
     \<and> (search_result = Inr [] \<longrightarrow>
          discover_email e h sid (s, credits)
            = ((set_stores during s)\<lparr>hunter_client := client\<rparr>, credits))
     \<and> (\<forall>exn. search_result = Inl exn \<longrightarrow>
          discover_email e h sid (s, credits)
            = (warn (''Failed to find email for '' @ domain_of w @ '': '' @ exception_str h exn)
                 ((set_stores during s)\<lparr>hunter_client := client\<rparr>), credits))
     \<and> (\<forall>best_email others msg.
          search_result = Inr (best_email # others) \<and> set_email_raises e = Some msg \<longrightarrow>
          discover_email e h sid (s, credits)
            = (warn (''Failed to find email for '' @ domain_of w @ '': '' @ msg)
                 ((set_stores during s)\<lparr>hunter_client := client\<rparr>), credits))
     \<and> email_loop env h k (sid # ids) (s, credits)
         = email_loop env h (Suc k) ids (discover_email (env k) h sid (s, credits))"
proof -
  have search': "domain_search h (domain_of w) (hunter_client (set_stores seen s))
                   = (search_result, client)"
    using search by (simp add: set_stores_def)
  have st: "(set_stores during (set_stores seen s))\<lparr>hunter_client := client\<rparr>
              = (set_stores during s)\<lparr>hunter_client := client\<rparr>"
    by (simp add: set_stores_def)
  have st2: "set_stores docs ((set_stores during (set_stores seen s))\<lparr>hunter_client := client\<rparr>)
              = (set_stores docs s)\<lparr>hunter_client := client\<rparr>" for docs
    by (simp add: set_stores_def)
  have c1: "discover_email e h sid (s, credits)
          = ((set_stores (update_one (\<lambda>d. store_id d = sid)
                            (apply_set (set_email e best_email)) during) s)
               \<lparr>hunter_client := client\<rparr>,
             credits + 1)
        \<and> (\<forall>old. find_one (\<lambda>d. store_id d = sid) during = Some old \<longrightarrow>
              find_one (\<lambda>d. store_id d = sid)
                (dvd_stores (mongo (fst (discover_email e h sid (s, credits)))))
                = Some (old\<lparr>email := email_value best_email,
                            email_confidence :=
                              Some ((case confidence best_email of None \<Rightarrow> 0 | Some c \<Rightarrow> c) / 100),
                            updated_at := utcnow_lookup e\<rparr>))
        \<and> (find_one (\<lambda>d. store_id d = sid) during = None \<longrightarrow>
              dvd_stores (mongo (fst (discover_email e h sid (s, credits)))) = during)"
    if h1: "search_result = Inr (best_email # others) \<and> set_email_raises e = None"
    for best_email others
  proof -
    have eq: "discover_email e h sid (s, credits)
          = ((set_stores (update_one (\<lambda>d. store_id d = sid)
                            (apply_set (set_email e best_email)) during) s)
               \<lparr>hunter_client := client\<rparr>,
             credits + 1)"
      using found h1
      by (simp add: discover_email_def seen_def [symmetric] search' Let_def
            during_def [symmetric] st2)
    have docs: "dvd_stores (mongo (fst (discover_email e h sid (s, credits))))
          = update_one (\<lambda>d. store_id d = sid) (apply_set (set_email e best_email)) during"
      unfolding eq by (simp add: set_stores_def)
    have upd: "apply_set (set_email e best_email) old
          = old\<lparr>email := email_value best_email,
                email_confidence :=
                  Some ((case confidence best_email of None \<Rightarrow> 0 | Some c \<Rightarrow> c) / 100),
                updated_at := utcnow_lookup e\<rparr>" for old
      by (simp add: apply_set_def set_email_def set_nothing_def)
    have w1: "find_one (\<lambda>d. store_id d = sid)
                (dvd_stores (mongo (fst (discover_email e h sid (s, credits)))))
                = Some (old\<lparr>email := email_value best_email,
                            email_confidence :=
                              Some ((case confidence best_email of None \<Rightarrow> 0 | Some c \<Rightarrow> c) / 100),
                            updated_at := utcnow_lookup e\<rparr>)"
      if f: "find_one (\<lambda>d. store_id d = sid) during = Some old" for old
    proof -
      have "store_id old = sid"
        using f by (auto simp: find_one_def find_Some_iff)
      then have "store_id (apply_set (set_email e best_email) old) = sid"
        by (simp add: apply_set_def)
      from find_one_after_update_one [OF f, of "apply_set (set_email e best_email)", OF this]
      show ?thesis unfolding docs upd .
    qed
    have w2: "dvd_stores (mongo (fst (discover_email e h sid (s, credits)))) = during"
      if "find_one (\<lambda>d. store_id d = sid) during = None"
      unfolding docs using that by (rule update_one_not_found)
    from eq w1 w2 show ?thesis by blast
  qed
  have c2: "discover_email e h sid (s, credits)
            = ((set_stores during s)\<lparr>hunter_client := client\<rparr>, credits)"
    if "search_result = Inr []"
    using found that
    by (simp add: discover_email_def seen_def [symmetric] search' Let_def
          during_def [symmetric] st)
  have c3: "discover_email e h sid (s, credits)
            = (warn (''Failed to find email for '' @ domain_of w @ '': '' @ exception_str h exn)
                 ((set_stores during s)\<lparr>hunter_client := client\<rparr>), credits)"
    if "search_result = Inl exn" for exn
    using found that
    by (simp add: discover_email_def seen_def [symmetric] search' Let_def
          during_def [symmetric] st)
  have c4: "discover_email e h sid (s, credits)
            = (warn (''Failed to find email for '' @ domain_of w @ '': '' @ msg)
                 ((set_stores during s)\<lparr>hunter_client := client\<rparr>), credits)"
    if "search_result = Inr (best_email # others) \<and> set_email_raises e = Some msg"
    for best_email others msg
    using found that
    by (simp add: discover_email_def seen_def [symmetric] search' Let_def
          during_def [symmetric] st)
  have c5: "email_loop env h k (sid # ids) (s, credits)
         = email_loop env h (Suc k) ids (discover_email (env k) h sid (s, credits))"
    by simp
  from c1 c2 c3 c4 c5 show ?thesis by blast
qed

lemma example_domain:
  "domain_of ''https://www.vintagevideo.example/shop'' = ''vintagevideo.example''"
  by (simp add: domain_of_def str_replace_def)

lemma example_domain_search:
  "domain_search example_hunter ''vintagevideo.example''
     \<lparr>request_timestamps = [], requests_sent = 0\<rparr>
   = (Inr [\<lparr>email_value = Some ''info@vintagevideo.example'', confidence = Some 92\<rparr>],
      \<lparr>request_timestamps = [0], requests_sent = 1\<rparr>)"
  by (simp add: domain_search_def make_request_def enforce_rate_limit_def example_hunter_def)

theorem discover_email_round_witness:
  "discover_email quiet_lookup example_hunter ''s1'' (example_state [example_store], 0)
     = ((example_state
           [example_store\<lparr>email := Some ''info@vintagevideo.example'',
                           email_confidence := Some (92 / 100), updated_at := 300\<rparr>])
          \<lparr>hunter_client := \<lparr>request_timestamps = [0], requests_sent = 1\<rparr>\<rparr>, 1)"
proof -
  have a1: "find_store_raises quiet_lookup = None"
    by (simp add: quiet_lookup_def)
  have a2: "find_one (\<lambda>d. store_id d = ''s1'')
              (others_before_lookup quiet_lookup (dvd_stores (mongo (example_state [example_store]))))
            = Some example_store"
    by (simp add: quiet_lookup_def example_state_def find_one_def example_store_def)
  have a3: "website example_store = Some ''https://www.vintagevideo.example/shop''"
    by (simp add: example_store_def)
  have a4: "''https://www.vintagevideo.example/shop'' \<noteq> []" by simp
  have a5: "domain_search example_hunter (domain_of ''https://www.vintagevideo.example/shop'')
              (hunter_client (example_state [example_store]))
            = (Inr [\<lparr>email_value = Some ''info@vintagevideo.example'', confidence = Some 92\<rparr>],
               \<lparr>request_timestamps = [0], requests_sent = 1\<rparr>)"
    unfolding example_domain by (simp add: example_state_def example_domain_search)
  from discover_email_round [OF a1 a2 a3 a4 a5, of 0 "\<lambda>k. quiet_lookup" 0 "[]"]
  have "discover_email quiet_lookup example_hunter ''s1'' (example_state [example_store], 0)
     = ((set_stores (update_one (\<lambda>d. store_id d = ''s1'')
                        (apply_set (set_email quiet_lookup
                           \<lparr>email_value = Some ''info@vintagevideo.example'',
                            confidence = Some 92\<rparr>))
                        (others_during_search quiet_lookup
                           (others_before_lookup quiet_lookup
                              (dvd_stores (mongo (example_state [example_store]))))))
           (example_state [example_store]))
          \<lparr>hunter_client := \<lparr>request_timestamps = [0], requests_sent = 1\<rparr>\<rparr>, 0 + 1)"
    by (simp add: quiet_lookup_def)
  then show ?thesis
    by (simp add: quiet_lookup_def example_state_def set_stores_def apply_set_def set_email_def
          set_nothing_def example_store_def)
qed

text \<open>
  The store is found and the API returns a candidate, but a client deletes the store
  while the task waits for the API: no record gets the address, and one credit is counted.
\<close>

theorem discover_email_deleted_counterexample:
  "find_one (\<lambda>d. store_id d = ''s1'') (dvd_stores (mongo (example_state [example_store])))
     = Some example_store
   \<and> fst (domain_search example_hunter
            (domain_of ''https://www.vintagevideo.example/shop'')
            (hunter_client (example_state [example_store])))
     = Inr [\<lparr>email_value = Some ''info@vintagevideo.example'', confidence = Some 92\<rparr>]
   \<and> discover_email deleting_lookup example_hunter ''s1'' (example_state [example_store], 0)
     = ((example_state [])
          \<lparr>hunter_client := \<lparr>request_timestamps = [0], requests_sent = 1\<rparr>\<rparr>, 1)"
proof -
  have w: "website example_store = Some ''https://www.vintagevideo.example/shop''"
    by (simp add: example_store_def)
  have sid: "store_id example_store = ''s1''"
    by (simp add: example_store_def)
  have f: "find_one (\<lambda>d. store_id d = ''s1'') [example_store] = Some example_store"
    by (simp add: find_one_def sid)
  have d: "delete_store ''s1'' \<lparr>dvd_stores = [example_store], search_jobs = []\<rparr>
             = (Inr ''Store deleted successfully'', \<lparr>dvd_stores = [], search_jobs = []\<rparr>)"
    by (simp add: delete_store_def sid)
  show ?thesis
    by (simp add: discover_email_def deleting_lookup_def quiet_lookup_def example_state_def
          set_stores_def f w example_domain example_domain_search d)
qed

end
